theory Spec2Isabelle
  imports Main "HOL-Library.Word"
begin

unbundle bit_operations_syntax

section \<open>Framebuffer multiplexing between device namespaces (drivers/video/fb_devns.c)\<close>

text \<open>
  A shallow embedding of the shadow framebuffer layer. Every \<^verbatim>\<open>struct fb_info\<close>,
  hardware or virtual, lives in a store keyed by its address; the functions of the C
  file take addresses and a world and return the updated world. A kernel \<^verbatim>\<open>BUG()\<close>
  and a dereference of an address that holds no object are results of their own
  (\<open>Inl BUG\<close>, \<open>Inl OOPS\<close>): a faulting call returns no world.

  What the file calls but does not define (the slab and vmalloc allocators, the
  namespace framework of \<^verbatim>\<open>linux/dev_namespace.h\<close>, the hardware driver's own
  \<^verbatim>\<open>fb_ops\<close>, the memory manager) is the record \<open>env\<close>: the answers the
  surroundings give during one call. Calls into hardware and into the memory manager
  are appended to the world's \<open>trace\<close>, so that their order can be stated.
\<close>

subsection \<open>Addresses, faults, constants\<close>

type_synonym ptr = nat

abbreviation NULL :: ptr where
  "NULL \<equiv> 0"

datatype fault = BUG | OOPS

text \<open>The \<^verbatim>\<open>ERR_PTR\<close> convention of \<^verbatim>\<open>get_fb_info_ns\<close>: an errno or an address.\<close>

datatype err_ptr = ERR_PTR int | PTR ptr

definition ENOMEM :: int where
  "ENOMEM = 12"

text \<open>
  Modelled from the spec: \<^verbatim>\<open>FB_MAX\<close> and \<^verbatim>\<open>FBINFO_DEV_NS\<close> are defined in \<^verbatim>\<open>linux/fb.h\<close>,
  which is not among the sources at hand (nor is the header with \<^verbatim>\<open>ENOMEM\<close>, which
  is 12 on every Linux). The specification speaks of "a fixed-size table keyed by
  hardware device index" and of handles that are either a hardware device or a
  shadow: \<^verbatim>\<open>FB_MAX\<close> is that size, 32 in the kernel, and \<^verbatim>\<open>FBINFO_DEV_NS\<close> is the bit of
  the 32-bit \<^verbatim>\<open>flags\<close> word that marks a shadow. No property below depends on the
  two numbers beyond the flag being a non-zero bit pattern.
\<close>

definition FB_MAX :: nat where
  "FB_MAX = 32"

definition FBINFO_DEV_NS :: "32 word" where
  "FBINFO_DEV_NS = 0x80000"

subsection \<open>The structures\<close>

record fb_colreg =
  regno :: "32 word"
  red :: "16 word"
  green :: "16 word"
  blue :: "16 word"
  transp :: "16 word"

text \<open>Of \<^verbatim>\<open>struct fb_var_screeninfo\<close> the file reads \<^verbatim>\<open>xres\<close> only; two more members
  stand for the rest of the geometry.\<close>

record fb_var_screeninfo =
  xres :: "32 word"
  yres :: "32 word"
  bits_per_pixel :: "32 word"

text \<open>\<^verbatim>\<open>struct fb_inode\<close>; its member \<^verbatim>\<open>count\<close> is \<open>use_count\<close> here, since
  \<^verbatim>\<open>struct fb_info\<close> has a \<^verbatim>\<open>count\<close> of its own. It is an \<^verbatim>\<open>int\<close>: 32 bits, and the
  kernel is built so that its arithmetic wraps around.\<close>

record fb_inode =
  inode :: ptr
  use_count :: "32 word"

text \<open>
  \<^verbatim>\<open>struct fb_ns_info\<close>, the private part of a virtual \<^verbatim>\<open>fb_info\<close>. The members
  \<^verbatim>\<open>var\<close>, \<^verbatim>\<open>screen_base\<close> and \<^verbatim>\<open>screen_size\<close> carry the prefix \<open>ns_\<close> (the same names
  exist in \<^verbatim>\<open>struct fb_info\<close>). \<^verbatim>\<open>colreg\<close> is the address of a block in the store
  \<open>colregs\<close>. The array \<^verbatim>\<open>inodes\<close> with its length \<^verbatim>\<open>inodes_len\<close> is the list \<open>inodes\<close>.
\<close>

record fb_ns_info =
  fb_ns :: ptr
  info :: ptr
  ns_var :: fb_var_screeninfo
  colreg :: ptr
  colreg_pos :: nat
  colreg_len :: nat
  vmem_buf :: ptr
  vmem_len :: nat
  ns_screen_base :: ptr
  ns_screen_size :: nat
  inodes :: "fb_inode list"

text \<open>
  The members of \<^verbatim>\<open>struct fb_info\<close> that the file uses. \<^verbatim>\<open>fix.smem_start\<close> and
  \<^verbatim>\<open>fix.smem_len\<close> are \<open>smem_start\<close> and \<open>smem_len\<close>. \<open>count\<close> is an \<^verbatim>\<open>atomic_t\<close>, a
  32-bit counter that wraps around. \<open>par\<close> is the private area
  allocated behind the structure; for a hardware device it belongs to the driver and
  this file never looks at it unless it is handed a hardware device by mistake.
\<close>

record fb_info =
  node :: nat
  flags :: "32 word"
  count :: "32 word"
  screen_base :: ptr
  screen_size :: nat
  smem_start :: nat
  smem_len :: nat
  var :: fb_var_screeninfo
  par :: fb_ns_info

text \<open>\<^verbatim>\<open>struct fb_dev_ns\<close>: the table of shadows of one namespace, the namespace it
  belongs to (\<^verbatim>\<open>dev_ns_info.dev_ns\<close>), and the number of references taken on it through
  \<^verbatim>\<open>get_fb_ns_cur\<close> and not yet returned through \<^verbatim>\<open>put_fb_ns\<close>.\<close>

record fb_dev_ns =
  fb :: "ptr list"
  dev_ns :: ptr
  users :: int

text \<open>A memory region of some process that maps the device, as the memory manager
  reports it; \<open>vm_f_mapping\<close> is \<^verbatim>\<open>vm_file->f_mapping\<close>.\<close>

record vm_area_struct =
  vm_mm :: ptr
  vm_start :: nat
  vm_end :: nat
  vm_f_mapping :: ptr

text \<open>A node of the list \<^verbatim>\<open>struct fb_mmlist\<close>; its member \<^verbatim>\<open>size\<close> is \<open>mm_size\<close>.\<close>

record fb_mmlist =
  mm :: ptr
  start :: nat
  mm_size :: nat

subsection \<open>Trace, world, environment\<close>

datatype event =
    MutexLock
  | MutexUnlock
  | ImmapWalk ptr
  | ZapPageRange ptr nat nat
  | FileMmap ptr nat int
  | FbSync ptr
  | MemcpyToFb ptr ptr nat
  | MemcpyFromFb ptr ptr nat
  | HwSetColreg ptr "32 word" "32 word" "32 word" "32 word" "32 word"
  | HwSetPar ptr fb_var_screeninfo
  | PanDisplay ptr

record world =
  fb_infos :: "ptr \<rightharpoonup> fb_info"
  fb_nss :: "ptr \<rightharpoonup> fb_dev_ns"
  colregs :: "ptr \<rightharpoonup> fb_colreg list"
  vmalloc_live :: "ptr set"
  mem :: "nat \<Rightarrow> 8 word"
  trace :: "event list"

text \<open>
  The environment of one call.
  \<^item> \<open>cur_fb_ns\<close>: what \<^verbatim>\<open>get_fb_ns_cur()\<close> finds for the calling process (\<open>NULL\<close> when
    it fails); \<open>is_active_dev_ns\<close> and \<open>init_dev_ns\<close> are the namespace framework's.
  \<^item> \<open>framebuffer_alloc_ret\<close>, \<open>vmalloc_ret\<close>, \<open>krealloc_ret\<close>: the address the
    allocator hands out (\<open>NULL\<close> on failure); \<open>kmalloc_fbops_ok\<close>,
    \<open>krealloc_inodes_ok\<close>, \<open>kmalloc_mmlist_ok k\<close> (the k-th list node): whether the
    allocation succeeds.
  \<^item> \<open>hw_fb_sync\<close>, \<open>hw_fb_setcolreg\<close>, \<open>hw_fb_set_par\<close>: the operations of the
    hardware driver of a device, \<open>None\<close> (or \<open>False\<close>) where the driver leaves the
    pointer \<open>NULL\<close>; the value an operation returns may depend on everything done so
    far (the trace).
  \<^item> \<open>i_mapping\<close>, \<open>i_mmap\<close>, \<open>find_vma\<close>, \<open>f_mmap\<close>: the memory manager: the address
    space of an inode, the regions mapping it, the lookup of a region, and the
    result of the file's \<^verbatim>\<open>mmap\<close> operation on a region.
  \<^item> \<open>config_pan\<close>: whether \<^verbatim>\<open>CONFIG_FB_DEV_NS_PAN\<close> is set.
\<close>

record env =
  cur_fb_ns :: ptr
  is_active_dev_ns :: "ptr \<Rightarrow> bool"
  init_dev_ns :: ptr
  framebuffer_alloc_ret :: ptr
  vmalloc_ret :: ptr
  krealloc_ret :: ptr
  kmalloc_fbops_ok :: bool
  krealloc_inodes_ok :: bool
  kmalloc_mmlist_ok :: "nat \<Rightarrow> bool"
  hw_fb_sync :: "ptr \<Rightarrow> bool"
  hw_fb_setcolreg :: "ptr \<Rightarrow> (event list \<Rightarrow> 32 word \<Rightarrow> 32 word \<Rightarrow> 32 word \<Rightarrow> 32 word \<Rightarrow> 32 word \<Rightarrow> int) option"
  hw_fb_set_par :: "ptr \<Rightarrow> (event list \<Rightarrow> fb_var_screeninfo \<Rightarrow> int) option"
  i_mapping :: "ptr \<Rightarrow> ptr"
  i_mmap :: "ptr \<Rightarrow> vm_area_struct list"
  find_vma :: "ptr \<Rightarrow> nat \<Rightarrow> vm_area_struct option"
  f_mmap :: "event list \<Rightarrow> vm_area_struct \<Rightarrow> int"
  config_pan :: bool

definition emit :: "event \<Rightarrow> world \<Rightarrow> world" where
  "emit e w = w\<lparr>trace := trace w @ [e]\<rparr>"

text \<open>A store through a pointer to an \<^verbatim>\<open>fb_info\<close> (only ever used on an address that
  was just read).\<close>

definition upd_fb :: "ptr \<Rightarrow> (fb_info \<Rightarrow> fb_info) \<Rightarrow> world \<Rightarrow> world" where
  "upd_fb p f w =
     (case fb_infos w p of
        None \<Rightarrow> w
      | Some x \<Rightarrow> w\<lparr>fb_infos := (fb_infos w)(p \<mapsto> f x)\<rparr>)"

subsection \<open>Telling virtual from hardware, and the active namespace\<close>

definition fb_info_is_virt :: "fb_info \<Rightarrow> bool" where
  "fb_info_is_virt fb_info = (flags fb_info AND FBINFO_DEV_NS \<noteq> 0)"

text \<open>\<^verbatim>\<open>fb_virt_is_active\<close>: a hardware device is never "active"; a shadow is when its
  namespace is the active one or the initial one.\<close>

definition fb_virt_is_active :: "env \<Rightarrow> ptr \<Rightarrow> world \<Rightarrow> fault + bool" where
  "fb_virt_is_active e virt w =
     (case fb_infos w virt of
        None \<Rightarrow> Inl OOPS
      | Some v \<Rightarrow>
          if \<not> fb_info_is_virt v then Inr False
          else (case fb_nss w (fb_ns (par v)) of
                  None \<Rightarrow> Inl OOPS
                | Some ns \<Rightarrow>
                    Inr (is_active_dev_ns e (dev_ns ns) \<or> dev_ns ns = init_dev_ns e)))"

definition fb_virt_to_info :: "ptr \<Rightarrow> world \<Rightarrow> fault + ptr" where
  "fb_virt_to_info virt w =
     (case fb_infos w virt of
        None \<Rightarrow> Inl OOPS
      | Some v \<Rightarrow> if \<not> fb_info_is_virt v then Inr virt else Inr (info (par v)))"

definition fb_virt_to_info_ns :: "env \<Rightarrow> ptr \<Rightarrow> world \<Rightarrow> fault + ptr" where
  "fb_virt_to_info_ns e virt w =
     (case fb_virt_is_active e virt w of
        Inl f \<Rightarrow> Inl f
      | Inr active \<Rightarrow> if active then fb_virt_to_info virt w else Inr virt)"

text \<open>
  \<^verbatim>\<open>_fb_debug_diff\<close> (the file defines \<^verbatim>\<open>DEBUG\<close> whenever \<^verbatim>\<open>CONFIG_DEV_NS\<close> is set, and it
  cannot be built without): \<^verbatim>\<open>BUG_ON\<close> a hardware device, \<^verbatim>\<open>BUG_ON\<close> a hardware buffer
  that is no longer the one recorded when the shadow was made. Its \<^verbatim>\<open>printk\<close> and
  \<^verbatim>\<open>WARN_ON\<close> lines change nothing and are left out, as is \<^verbatim>\<open>_fb_debug_info\<close>.
\<close>

definition fb_debug_diff :: "ptr \<Rightarrow> world \<Rightarrow> fault + unit" where
  "fb_debug_diff virt w =
     (case fb_infos w virt of
        None \<Rightarrow> Inl OOPS
      | Some v \<Rightarrow>
          if \<not> fb_info_is_virt v then Inl BUG
          else (case fb_infos w (info (par v)) of
                  None \<Rightarrow> Inl OOPS
                | Some hw \<Rightarrow>
                    if ns_screen_base (par v) \<noteq> screen_base hw
                       \<or> ns_screen_size (par v) \<noteq> screen_size hw
                    then Inl BUG else Inr ()))"

subsection \<open>Tracking the inodes that map the device\<close>

text \<open>\<^verbatim>\<open>find_fb_inode\<close> returns the index of the entry where the C returns its address.\<close>

fun find_fb_inode_from :: "fb_inode list \<Rightarrow> ptr \<Rightarrow> nat \<Rightarrow> nat option" where
  "find_fb_inode_from [] ino i = None"
| "find_fb_inode_from (x # xs) ino i =
     (if inode x = ino then Some i else find_fb_inode_from xs ino (Suc i))"

definition find_fb_inode :: "ptr \<Rightarrow> ptr \<Rightarrow> world \<Rightarrow> fault + nat option" where
  "find_fb_inode virt ino w =
     (case fb_infos w virt of
        None \<Rightarrow> Inl OOPS
      | Some v \<Rightarrow> Inr (find_fb_inode_from (inodes (par v)) ino 0))"

definition set_inodes :: "fb_inode list \<Rightarrow> fb_info \<Rightarrow> fb_info" where
  "set_inodes xs v = v\<lparr>par := (par v)\<lparr>inodes := xs\<rparr>\<rparr>"

definition track_fb_inode :: "env \<Rightarrow> ptr \<Rightarrow> ptr \<Rightarrow> world \<Rightarrow> fault + (int \<times> world)" where
  "track_fb_inode e virt ino w =
     (case fb_infos w virt of
        None \<Rightarrow> Inl OOPS
      | Some v \<Rightarrow>
          let w1 = emit MutexLock w; xs = inodes (par v) in
          (case find_fb_inode virt ino w1 of
             Inl f \<Rightarrow> Inl f
           | Inr None \<Rightarrow>
               if \<not> krealloc_inodes_ok e then Inr (- ENOMEM, emit MutexUnlock w1)
               else Inr (0, emit MutexUnlock
                             (upd_fb virt (set_inodes (xs @ [\<lparr>inode = ino, use_count = 0 + 1\<rparr>])) w1))
           | Inr (Some i) \<Rightarrow>
               Inr (0, emit MutexUnlock
                         (upd_fb virt
                            (set_inodes (xs[i := (xs ! i)\<lparr>use_count := use_count (xs ! i) + 1\<rparr>])) w1))))"

text \<open>
  \<^verbatim>\<open>untrack_fb_inode\<close>. The first statement reads \<^verbatim>\<open>virt->par\<close>; then a \<open>NULL\<close> inode
  returns at once, before the mutex. An inode that is not found is \<^verbatim>\<open>BUG_ON\<close>. When
  the count of the entry drops to zero the last entry is moved into its place and
  the array is shortened by one.
\<close>

definition untrack_fb_inode :: "ptr \<Rightarrow> ptr \<Rightarrow> world \<Rightarrow> fault + world" where
  "untrack_fb_inode virt ino w =
     (case fb_infos w virt of
        None \<Rightarrow> Inl OOPS
      | Some v \<Rightarrow>
          if ino = NULL then Inr w
          else
            let w1 = emit MutexLock w; xs = inodes (par v) in
            (case find_fb_inode virt ino w1 of
               Inl f \<Rightarrow> Inl f
             | Inr None \<Rightarrow> Inl BUG
             | Inr (Some i) \<Rightarrow>
                 let c = use_count (xs ! i) - 1;
                     xs1 = xs[i := (xs ! i)\<lparr>use_count := c\<rparr>]
                 in if c = 0
                    then let len = length xs1 - 1
                         in Inr (emit MutexUnlock
                                   (upd_fb virt (set_inodes (take len (xs1[i := xs1 ! len]))) w1))
                    else Inr (emit MutexUnlock (upd_fb virt (set_inodes xs1) w1))))"

subsection \<open>Operations that must never reach a shadow\<close>

definition fb_ns_open :: "ptr \<Rightarrow> int \<Rightarrow> world \<Rightarrow> fault + (int \<times> world)" where
  "fb_ns_open virt user w = Inl BUG"

definition fb_ns_release :: "ptr \<Rightarrow> int \<Rightarrow> world \<Rightarrow> fault + (int \<times> world)" where
  "fb_ns_release virt user w = Inl BUG"

definition fb_ns_destroy :: "ptr \<Rightarrow> world \<Rightarrow> fault + world" where
  "fb_ns_destroy virt w = Inl BUG"

subsection \<open>Staging mode changes and palette updates\<close>

text \<open>\<^verbatim>\<open>fb_ns_set_par\<close>: stash \<^verbatim>\<open>virt->var\<close> (which the caller has just set to the geometry
  asked for) in the private area, "for later, when fb becomes active".\<close>

definition fb_ns_set_par :: "ptr \<Rightarrow> world \<Rightarrow> fault + (int \<times> world)" where
  "fb_ns_set_par virt w =
     (case fb_infos w virt of
        None \<Rightarrow> Inl OOPS
      | Some v \<Rightarrow>
          if \<not> fb_info_is_virt v then Inl BUG
          else (case fb_debug_diff virt w of
                  Inl f \<Rightarrow> Inl f
                | Inr _ \<Rightarrow> Inr (0, upd_fb virt (\<lambda>v. v\<lparr>par := (par v)\<lparr>ns_var := var v\<rparr>\<rparr>) w)))"

definition zero_colreg :: fb_colreg where
  "zero_colreg = \<lparr>regno = 0, red = 0, green = 0, blue = 0, transp = 0\<rparr>"

text \<open>
  \<^verbatim>\<open>krealloc\<close> on a block of palette entries: on failure (\<open>new = NULL\<close>) nothing
  changes; otherwise the block at \<open>new\<close> holds the old entries followed by fresh
  ones up to \<open>n\<close> entries, and the old block is gone. The fresh entries are
  uninitialised in the kernel; nothing reads them before they are written.
\<close>

definition krealloc_colreg :: "ptr \<Rightarrow> ptr \<Rightarrow> nat \<Rightarrow> world \<Rightarrow> world" where
  "krealloc_colreg new old n w =
     (if new = NULL then w
      else let arr = (case colregs w old of None \<Rightarrow> [] | Some a \<Rightarrow> a)
           in w\<lparr>colregs := ((colregs w)(old := None))
                               (new \<mapsto> arr @ replicate (n - length arr) zero_colreg)\<rparr>)"

text \<open>
  \<^verbatim>\<open>fb_ns_setcolreg\<close>. When the array is full (\<^verbatim>\<open>colreg_pos == colreg_len\<close>) the C reads
  \<^verbatim>\<open>
    colreg = krealloc(colreg, size * sizeof(*colreg), GFP_KERNEL);
    if (colreg == NULL);
        return -ENOMEM;
  \<close>
  The \<^verbatim>\<open>if\<close> ends at its semicolon, so the \<^verbatim>\<open>return\<close> is taken whatever \<^verbatim>\<open>krealloc\<close>
  returns; the two assignments that follow it in that block are never reached, and
  the private area keeps its old \<^verbatim>\<open>colreg\<close> and \<^verbatim>\<open>colreg_len\<close>. The components arrive as
  \<^verbatim>\<open>unsigned\<close> and are stored in 16 bits.
\<close>

definition fb_ns_setcolreg ::
  "env \<Rightarrow> 32 word \<Rightarrow> 32 word \<Rightarrow> 32 word \<Rightarrow> 32 word \<Rightarrow> 32 word \<Rightarrow> ptr \<Rightarrow> world
    \<Rightarrow> fault + (int \<times> world)" where
  "fb_ns_setcolreg e rno r g b t virt w =
     (case fb_infos w virt of
        None \<Rightarrow> Inl OOPS
      | Some v \<Rightarrow>
          if \<not> fb_info_is_virt v then Inl BUG
          else (case fb_debug_diff virt w of
                  Inl f \<Rightarrow> Inl f
                | Inr _ \<Rightarrow>
                    let ns = par v in
                    if colreg_pos ns = colreg_len ns
                    then let n = colreg_pos ns + 256;
                             w1 = krealloc_colreg (krealloc_ret e) (colreg ns) n w
                         in Inr (- ENOMEM, w1)
                    else (case colregs w (colreg ns) of
                            None \<Rightarrow> Inl OOPS
                          | Some arr \<Rightarrow>
                              if length arr \<le> colreg_pos ns then Inl OOPS
                              else
                                let c = \<lparr>regno = rno, red = ucast r, green = ucast g,
                                         blue = ucast b, transp = ucast t\<rparr>;
                                    w1 = w\<lparr>colregs := (colregs w)
                                            (colreg ns \<mapsto> arr[colreg_pos ns := c])\<rparr>
                                in Inr (0, upd_fb virt
                                             (\<lambda>v. v\<lparr>par := (par v)\<lparr>colreg_pos := colreg_pos (par v) + 1\<rparr>\<rparr>)
                                             w1))))"

subsection \<open>Making and releasing a shadow\<close>

definition zero_var :: fb_var_screeninfo where
  "zero_var = \<lparr>xres = 0, yres = 0, bits_per_pixel = 0\<rparr>"

text \<open>
  \<^verbatim>\<open>fb_ns_info_alloc\<close>, with \<^verbatim>\<open>allocate_backbuffer\<close> in its default build
  (\<^verbatim>\<open>vmalloc_user\<close>, which hands out zeroed memory). \<^verbatim>\<open>framebuffer_alloc\<close> zeroes the
  object, so what the function does not set is zero. On each failure the C frees
  what it had allocated in this call and returns \<open>NULL\<close>: the world is as before.
\<close>

definition fb_ns_info_alloc :: "env \<Rightarrow> ptr \<Rightarrow> ptr \<Rightarrow> world \<Rightarrow> fault + (ptr \<times> world)" where
  "fb_ns_info_alloc e fb_nsp fb_infop w =
     (case fb_infos w fb_infop of
        None \<Rightarrow> Inl OOPS
      | Some hw \<Rightarrow>
          let fb_virt = framebuffer_alloc_ret e in
          if fb_virt = NULL then Inr (NULL, w)
          else (let vlen = smem_len hw;
                    vmem = (if 0 < vlen then vmalloc_ret e else NULL)
                in if 0 < vlen \<and> vmem = NULL then Inr (NULL, w)
                   else if \<not> kmalloc_fbops_ok e then Inr (NULL, w)
                   else
                     let ns = \<lparr>fb_ns = fb_nsp, info = fb_infop, ns_var = zero_var,
                               colreg = NULL, colreg_pos = 0, colreg_len = 0,
                               vmem_buf = vmem, vmem_len = vlen,
                               ns_screen_base = screen_base hw,
                               ns_screen_size = screen_size hw, inodes = []\<rparr>;
                         v = \<lparr>node = node hw, flags = flags hw OR FBINFO_DEV_NS, count = 0,
                              screen_base = vmem, screen_size = screen_size hw,
                              smem_start = vmem, smem_len = vlen, var = var hw, par = ns\<rparr>
                     in Inr (fb_virt,
                             w\<lparr>fb_infos := (fb_infos w)(fb_virt \<mapsto> v),
                               vmalloc_live :=
                                 (if 0 < vlen then insert vmem (vmalloc_live w)
                                  else vmalloc_live w),
                               mem := (\<lambda>a. if vmem \<le> a \<and> a < vmem + vlen then 0
                                            else mem w a)\<rparr>)))"

text \<open>\<^verbatim>\<open>fb_ns_info_free\<close>: \<^verbatim>\<open>vfree\<close> the backing buffer, \<^verbatim>\<open>kfree\<close> the palette block, free
  the operations table and the object itself.\<close>

definition fb_ns_info_free :: "ptr \<Rightarrow> world \<Rightarrow> fault + world" where
  "fb_ns_info_free fb_virt w =
     (case fb_infos w fb_virt of
        None \<Rightarrow> Inl OOPS
      | Some v \<Rightarrow>
          Inr (w\<lparr>vmalloc_live := vmalloc_live w - {vmem_buf (par v)},
                 colregs := (colregs w)(colreg (par v) := None),
                 fb_infos := (fb_infos w)(fb_virt := None)\<rparr>))"

text \<open>
  Modelled from the spec: \<^verbatim>\<open>get_fb_ns_cur\<close> and \<^verbatim>\<open>put_fb_ns\<close> are generated by the macro
  \<^verbatim>\<open>DEFINE_DEV_NS_INFO\<close> of the namespace framework, which is not among the sources
  at hand. The specification treats the lifecycle of namespaces as the work of an
  external collaborator that hands out, per namespace, the table of its shadows.
  Here the first yields the table of the caller's namespace (\<open>cur_fb_ns\<close>, \<open>NULL\<close>
  when there is none to be had) and takes a reference on it, and the second
  returns one reference; what the framework does when the last reference goes is
  outside the model.
\<close>

definition put_fb_ns :: "ptr \<Rightarrow> world \<Rightarrow> world" where
  "put_fb_ns fb_nsp w =
     (case fb_nss w fb_nsp of
        None \<Rightarrow> w
      | Some ns \<Rightarrow> w\<lparr>fb_nss := (fb_nss w)(fb_nsp \<mapsto> ns\<lparr>users := users ns - 1\<rparr>)\<rparr>)"

definition get_fb_ns :: "ptr \<Rightarrow> world \<Rightarrow> world" where
  "get_fb_ns fb_nsp w =
     (case fb_nss w fb_nsp of
        None \<Rightarrow> w
      | Some ns \<Rightarrow> w\<lparr>fb_nss := (fb_nss w)(fb_nsp \<mapsto> ns\<lparr>users := users ns + 1\<rparr>)\<rparr>)"

text \<open>
  The table \<^verbatim>\<open>fb_ns->fb\<close> is an array of \<^verbatim>\<open>FB_MAX\<close> pointers, which \<^verbatim>\<open>get_fb_info_ns\<close> and
  \<^verbatim>\<open>put_fb_info_ns\<close> index with the device number \<^verbatim>\<open>node\<close> without a check. A number
  outside the array is undefined behaviour in C (the code would read or write
  whatever lies behind the table); the two functions below end in a fault there, and
  every statement made of them is for a device number inside the table.
\<close>

definition set_slot :: "ptr \<Rightarrow> nat \<Rightarrow> ptr \<Rightarrow> world \<Rightarrow> world" where
  "set_slot fb_nsp idx p w =
     (case fb_nss w fb_nsp of
        None \<Rightarrow> w
      | Some ns \<Rightarrow> w\<lparr>fb_nss := (fb_nss w)(fb_nsp \<mapsto> ns\<lparr>fb := (fb ns)[idx := p]\<rparr>)\<rparr>)"

definition get_fb_info_ns :: "env \<Rightarrow> ptr \<Rightarrow> world \<Rightarrow> fault + (err_ptr \<times> world)" where
  "get_fb_info_ns e fb_infop w =
     (let fb_nsp = cur_fb_ns e in
      if fb_nsp = NULL then Inr (ERR_PTR (- ENOMEM), w)
      else
        let w0 = get_fb_ns fb_nsp w in
        (case fb_infos w0 fb_infop of
           None \<Rightarrow> Inl OOPS
         | Some hw \<Rightarrow>
             let idx = node hw; w1 = emit MutexLock w0 in
             (case fb_nss w1 fb_nsp of
                None \<Rightarrow> Inl OOPS
              | Some ns \<Rightarrow>
                  if length (fb ns) \<le> idx then Inl OOPS
                  else
                    (case (if fb ns ! idx = NULL
                           then (case fb_ns_info_alloc e fb_nsp fb_infop w1 of
                                   Inl f \<Rightarrow> Inl f
                                 | Inr (p, w2) \<Rightarrow> Inr (p, set_slot fb_nsp idx p w2))
                           else Inr (fb ns ! idx, w1)) of
                       Inl f \<Rightarrow> Inl f
                     | Inr (fb_virt, w3) \<Rightarrow>
                         if fb_virt \<noteq> NULL
                         then (case fb_infos w3 fb_virt of
                                 None \<Rightarrow> Inl OOPS
                               | Some _ \<Rightarrow>
                                   Inr (PTR fb_virt,
                                        emit MutexUnlock
                                          (upd_fb fb_virt (\<lambda>v. v\<lparr>count := count v + 1\<rparr>) w3)))
                         else Inr (ERR_PTR (- ENOMEM),
                                   put_fb_ns fb_nsp (emit MutexUnlock w3))))))"

definition put_fb_info_ns :: "ptr \<Rightarrow> world \<Rightarrow> fault + world" where
  "put_fb_info_ns fb_virt w =
     (case fb_infos w fb_virt of
        None \<Rightarrow> Inl OOPS
      | Some v \<Rightarrow>
          (case fb_nss w (fb_ns (par v)) of
             None \<Rightarrow> Inl OOPS
           | Some ns \<Rightarrow>
               let w1 = put_fb_ns (fb_ns (par v)) w;
                   w2 = upd_fb fb_virt (\<lambda>v. v\<lparr>count := count v - 1\<rparr>) w1
               in if count v - 1 = 0
                  then if length (fb ns) \<le> node v then Inl OOPS
                       else fb_ns_info_free fb_virt (set_slot (fb_ns (par v)) (node v) NULL w2)
                  else Inr w2))"

subsection \<open>Replaying the staged state on the hardware\<close>

definition colreg_call :: "ptr \<Rightarrow> fb_colreg \<Rightarrow> event" where
  "colreg_call infop c =
     HwSetColreg infop (regno c) (ucast (red c)) (ucast (green c)) (ucast (blue c))
       (ucast (transp c))"

definition colreg_ret ::
  "(event list \<Rightarrow> 32 word \<Rightarrow> 32 word \<Rightarrow> 32 word \<Rightarrow> 32 word \<Rightarrow> 32 word \<Rightarrow> int)
    \<Rightarrow> event list \<Rightarrow> fb_colreg \<Rightarrow> int" where
  "colreg_ret f tr c =
     f tr (regno c) (ucast (red c)) (ucast (green c)) (ucast (blue c)) (ucast (transp c))"

text \<open>
  The loop of \<^verbatim>\<open>fb_ns_apply_colreg\<close>: \<^verbatim>\<open>while (i--) { ...; colreg++; }\<close>. \<open>k\<close> is how far
  \<^verbatim>\<open>colreg\<close> has advanced into the block \<open>arr\<close>, the last natural number is \<^verbatim>\<open>i\<close>.
  Reading past the block, or calling an operation the driver does not have, is a
  fault.
\<close>

fun apply_colreg_loop ::
  "(event list \<Rightarrow> 32 word \<Rightarrow> 32 word \<Rightarrow> 32 word \<Rightarrow> 32 word \<Rightarrow> 32 word \<Rightarrow> int) option
    \<Rightarrow> ptr \<Rightarrow> fb_colreg list \<Rightarrow> nat \<Rightarrow> int \<Rightarrow> world \<Rightarrow> nat \<Rightarrow> fault + (int \<times> world)" where
  "apply_colreg_loop op infop arr k err w 0 = Inr (err, w)"
| "apply_colreg_loop op infop arr k err w (Suc i) =
     (if length arr \<le> k then Inl OOPS
      else (case op of
              None \<Rightarrow> Inl OOPS
            | Some f \<Rightarrow>
                let ret = colreg_ret f (trace w) (arr ! k);
                    w1 = emit (colreg_call infop (arr ! k)) w
                in apply_colreg_loop op infop arr (Suc k)
                     (if ret < 0 \<and> err = 0 then ret else err) w1 i))"

definition fb_ns_apply_colreg :: "env \<Rightarrow> ptr \<Rightarrow> world \<Rightarrow> fault + (int \<times> world)" where
  "fb_ns_apply_colreg e virt w =
     (case fb_infos w virt of
        None \<Rightarrow> Inl OOPS
      | Some v \<Rightarrow>
          (case fb_virt_to_info virt w of
             Inl f \<Rightarrow> Inl f
           | Inr infop \<Rightarrow>
               let arr = (case colregs w (colreg (par v)) of None \<Rightarrow> [] | Some a \<Rightarrow> a) in
               (case apply_colreg_loop (hw_fb_setcolreg e infop) infop arr 0 0 w
                       (colreg_pos (par v)) of
                  Inl f \<Rightarrow> Inl f
                | Inr (err, w1) \<Rightarrow>
                    Inr (err, upd_fb virt (\<lambda>v. v\<lparr>par := (par v)\<lparr>colreg_pos := 0\<rparr>\<rparr>) w1))))"

text \<open>
  \<^verbatim>\<open>fb_ns_apply_setpar\<close> as it is written: after the three initialisations comes
  \<^verbatim>\<open>
    pr_info("for virt 0x%p apply setpar\n", virt);
    return 0;
        /* if xres == 0, then there was no pending fb_set_par */
        if (var->xres == 0)
  \<close>
  so the function returns 0 there, every time.
\<close>

definition fb_ns_apply_setpar :: "env \<Rightarrow> ptr \<Rightarrow> world \<Rightarrow> fault + (int \<times> world)" where
  "fb_ns_apply_setpar e virt w =
     (case fb_infos w virt of
        None \<Rightarrow> Inl OOPS
      | Some v \<Rightarrow>
          (case fb_virt_to_info virt w of
             Inl f \<Rightarrow> Inl f
           | Inr infop \<Rightarrow> Inr (0, w)))"

text \<open>The statements of \<^verbatim>\<open>fb_ns_apply_setpar\<close> that stand behind that \<^verbatim>\<open>return\<close> and are
  never executed: what the function would do without it.\<close>

definition fb_ns_apply_setpar_unreached :: "env \<Rightarrow> ptr \<Rightarrow> world \<Rightarrow> fault + (int \<times> world)" where
  "fb_ns_apply_setpar_unreached e virt w =
     (case fb_infos w virt of
        None \<Rightarrow> Inl OOPS
      | Some v \<Rightarrow>
          (case fb_virt_to_info virt w of
             Inl f \<Rightarrow> Inl f
           | Inr infop \<Rightarrow>
               if xres (ns_var (par v)) = 0 then Inr (0, w)
               else (case fb_infos w infop of
                       None \<Rightarrow> Inl OOPS
                     | Some _ \<Rightarrow>
                         (case hw_fb_set_par e infop of
                            None \<Rightarrow> Inl OOPS
                          | Some f \<Rightarrow>
                              let w1 = upd_fb infop (\<lambda>h. h\<lparr>var := ns_var (par v)\<rparr>) w;
                                  ret = f (trace w1) (ns_var (par v));
                                  w2 = emit (HwSetPar infop (ns_var (par v))) w1
                              in Inr (ret,
                                      upd_fb virt
                                        (\<lambda>v. v\<lparr>par := (par v)\<lparr>ns_var := (ns_var (par v))\<lparr>xres := 0\<rparr>\<rparr>\<rparr>)
                                        w2)))))"

subsection \<open>Swapping buffer contents\<close>

definition memcpy :: "(nat \<Rightarrow> 8 word) \<Rightarrow> nat \<Rightarrow> nat \<Rightarrow> nat \<Rightarrow> nat \<Rightarrow> 8 word" where
  "memcpy m dst src n = (\<lambda>a. if dst \<le> a \<and> a < dst + n then m (src + (a - dst)) else m a)"

text \<open>\<^verbatim>\<open>fb_ns_swap_vmem\<close>: nothing for a zero size or a missing buffer; otherwise wait
  for the hardware if the driver can, then copy \<^verbatim>\<open>virt->fix.smem_len\<close> bytes, to the
  hardware buffer on activation and from it on deactivation.\<close>

definition fb_ns_swap_vmem :: "env \<Rightarrow> ptr \<Rightarrow> bool \<Rightarrow> world \<Rightarrow> fault + world" where
  "fb_ns_swap_vmem e virt activate w =
     (case fb_virt_to_info virt w of
        Inl f \<Rightarrow> Inl f
      | Inr infop \<Rightarrow>
          (case fb_infos w virt of
             None \<Rightarrow> Inl OOPS
           | Some v \<Rightarrow>
               let sz = smem_len v in
               (case fb_debug_diff virt w of
                  Inl f \<Rightarrow> Inl f
                | Inr _ \<Rightarrow>
                    (case fb_infos w infop of
                       None \<Rightarrow> Inl OOPS
                     | Some hw \<Rightarrow>
                         if sz = 0 \<or> screen_base hw = NULL \<or> screen_base v = NULL then Inr w
                         else
                           let w1 = (if hw_fb_sync e infop then emit (FbSync infop) w else w) in
                           if activate
                           then Inr (emit (MemcpyToFb (screen_base hw) (screen_base v) sz)
                                       (w1\<lparr>mem := memcpy (mem w1) (screen_base hw) (screen_base v) sz\<rparr>))
                           else Inr (emit (MemcpyFromFb (screen_base v) (screen_base hw) sz)
                                       (w1\<lparr>mem := memcpy (mem w1) (screen_base v) (screen_base hw) sz\<rparr>))))))"

subsection \<open>Re-pointing the mappings\<close>

text \<open>
  \<^verbatim>\<open>do_fb_ns_remap\<close>, first loop: walk the regions that map the inode (under its
  \<^verbatim>\<open>i_mmap_mutex\<close>) and push one list node per region; an allocation failure ends the
  walk with \<^verbatim>\<open>-ENOMEM\<close>. \<open>k\<close> counts the allocations.
\<close>

fun collect_mm ::
  "(nat \<Rightarrow> bool) \<Rightarrow> nat \<Rightarrow> vm_area_struct list \<Rightarrow> fb_mmlist list \<Rightarrow> int \<times> fb_mmlist list" where
  "collect_mm ok k [] mmhead = (0, mmhead)"
| "collect_mm ok k (vma # vmas) mmhead =
     (if \<not> ok k then (- ENOMEM, mmhead)
      else collect_mm ok (Suc k) vmas
             (\<lparr>mm = vm_mm vma, start = vm_start vma, mm_size = vm_end vma - vm_start vma\<rparr>
                # mmhead))"

text \<open>
  Second loop: for each node look the region up again (\<^verbatim>\<open>BUG_ON\<close> reads through the
  result before it is tested, and faults when the region belongs to another
  file), drop the old pages, and call the file's \<^verbatim>\<open>mmap\<close> again; the first negative
  result is kept ("proceed in case of errors"). The per-process semaphore,
  \<^verbatim>\<open>vma_adjust\<close> (whose result is only printed), the reference taken on each
  \<^verbatim>\<open>mm_struct\<close> and returned at the end, and the freeing of the list are left out.
\<close>

fun remap_mms :: "env \<Rightarrow> ptr \<Rightarrow> fb_mmlist list \<Rightarrow> int \<Rightarrow> world \<Rightarrow> fault + (int \<times> world)" where
  "remap_mms e mapping [] err w = Inr (err, w)"
| "remap_mms e mapping (m # ms) err w =
     (case find_vma e (mm m) (start m) of
        None \<Rightarrow> Inl OOPS
      | Some vma \<Rightarrow>
          if vm_f_mapping vma \<noteq> mapping then Inl BUG
          else
            let w1 = emit (ZapPageRange (mm m) (start m) (mm_size m)) w;
                ret = f_mmap e (trace w1) vma;
                w2 = emit (FileMmap (vm_mm vma) (vm_start vma) ret) w1
            in remap_mms e mapping ms (if ret < 0 \<and> err = 0 then ret else err) w2)"

definition do_fb_ns_remap :: "env \<Rightarrow> ptr \<Rightarrow> ptr \<Rightarrow> world \<Rightarrow> fault + (int \<times> world)" where
  "do_fb_ns_remap e virt mapping w =
     (let w0 = emit (ImmapWalk mapping) w;
          (err, mmhead) = collect_mm (kmalloc_mmlist_ok e) 0 (i_mmap e mapping) []
      in if err < 0 then Inr (err, w0) else remap_mms e mapping mmhead err w0)"

text \<open>
  The loop of \<^verbatim>\<open>fb_ns_swap_mmap\<close> over the tracked inodes. Its update of \<^verbatim>\<open>err\<close> is
  \<^verbatim>\<open>if (ret < 0 || !err) err = ret;\<close>. Nothing in the loop body writes to the array
  of inodes, so the loop runs over the list read at its start.
\<close>

fun swap_mmap_loop :: "env \<Rightarrow> ptr \<Rightarrow> fb_inode list \<Rightarrow> int \<Rightarrow> world \<Rightarrow> fault + (int \<times> world)" where
  "swap_mmap_loop e virt [] err w = Inr (err, w)"
| "swap_mmap_loop e virt (x # xs) err w =
     (if inode x = NULL then Inl OOPS
      else (case do_fb_ns_remap e virt (i_mapping e (inode x)) w of
              Inl f \<Rightarrow> Inl f
            | Inr (ret, w1) \<Rightarrow>
                swap_mmap_loop e virt xs (if ret < 0 \<or> err = 0 then ret else err) w1))"

definition fb_ns_swap_mmap :: "env \<Rightarrow> ptr \<Rightarrow> bool \<Rightarrow> world \<Rightarrow> fault + (int \<times> world)" where
  "fb_ns_swap_mmap e virt activate w =
     (case fb_infos w virt of
        None \<Rightarrow> Inl OOPS
      | Some v \<Rightarrow> swap_mmap_loop e virt (inodes (par v)) 0 w)"

subsection \<open>Activating and deactivating one shadow\<close>

text \<open>\<^verbatim>\<open>do_fb_activate_ns\<close>: re-point the mappings and stop if that reports an error;
  swap the contents; on activation replay the palette and the mode change (their
  results are dropped), and pan the display where the build asks for it.\<close>

definition do_fb_activate_ns :: "env \<Rightarrow> ptr \<Rightarrow> bool \<Rightarrow> world \<Rightarrow> fault + (int \<times> world)" where
  "do_fb_activate_ns e virt activate w =
     (case fb_ns_swap_mmap e virt activate w of
        Inl f \<Rightarrow> Inl f
      | Inr (ret, w1) \<Rightarrow>
          if ret < 0 then Inr (ret, w1)
          else (case fb_ns_swap_vmem e virt activate w1 of
                  Inl f \<Rightarrow> Inl f
                | Inr w2 \<Rightarrow>
                    if activate
                    then (case fb_ns_apply_colreg e virt w2 of
                            Inl f \<Rightarrow> Inl f
                          | Inr (_, w3) \<Rightarrow>
                              (case fb_ns_apply_setpar e virt w3 of
                                 Inl f \<Rightarrow> Inl f
                               | Inr (_, w4) \<Rightarrow>
                                   if config_pan e
                                   then (case fb_virt_to_info virt w4 of
                                           Inl f \<Rightarrow> Inl f
                                         | Inr infop \<Rightarrow> Inr (0, emit (PanDisplay infop) w4))
                                   else Inr (0, w4)))
                    else Inr (0, w2)))"

subsection \<open>Vocabulary of the properties\<close>

text \<open>The steps of a switch, and the step each traced event belongs to.\<close>

datatype phase = Repoint | Copy | Replay | Pan | Locking

fun phase_of :: "event \<Rightarrow> phase" where
  "phase_of (ImmapWalk m) = Repoint"
| "phase_of (ZapPageRange m s n) = Repoint"
| "phase_of (FileMmap m s r) = Repoint"
| "phase_of (FbSync p) = Copy"
| "phase_of (MemcpyToFb d s n) = Copy"
| "phase_of (MemcpyFromFb d s n) = Copy"
| "phase_of (HwSetColreg p rno r g b t) = Replay"
| "phase_of (HwSetPar p v) = Replay"
| "phase_of (PanDisplay p) = Pan"
| "phase_of MutexLock = Locking"
| "phase_of MutexUnlock = Locking"

definition is_repoint :: "event \<Rightarrow> bool" where
  "is_repoint ev \<longleftrightarrow> phase_of ev = Repoint"

definition is_copy :: "event \<Rightarrow> bool" where
  "is_copy ev \<longleftrightarrow> phase_of ev = Copy"

definition is_replay :: "event \<Rightarrow> bool" where
  "is_replay ev \<longleftrightarrow> phase_of ev = Replay"

text \<open>\<open>ext_by P w w'\<close>: \<open>w'\<close> is \<open>w\<close> with more events, all of kind \<open>P\<close>, and nothing
  else changed. \<open>grows_by\<close> says the same of the trace alone and \<open>same_store\<close> that the
  objects and the allocations are the same.\<close>

definition ext_by :: "(event \<Rightarrow> bool) \<Rightarrow> world \<Rightarrow> world \<Rightarrow> bool" where
  "ext_by P w w' \<longleftrightarrow> (\<exists>evs. w' = w\<lparr>trace := trace w @ evs\<rparr> \<and> list_all P evs)"

definition same_store :: "world \<Rightarrow> world \<Rightarrow> bool" where
  "same_store w w' \<longleftrightarrow>
     fb_infos w' = fb_infos w \<and> fb_nss w' = fb_nss w \<and> colregs w' = colregs w
     \<and> vmalloc_live w' = vmalloc_live w"

definition grows_by :: "(event \<Rightarrow> bool) \<Rightarrow> world \<Rightarrow> world \<Rightarrow> bool" where
  "grows_by P w w' \<longleftrightarrow> (\<exists>evs. trace w' = trace w @ evs \<and> list_all P evs)"

text \<open>
  What the specification says of the replay, in its words: "reporting only the first
  error encountered" is \<open>first_error\<close> of the values the hardware operation returned,
  entry by entry in submission order (\<open>replay_rets\<close>: each call sees the trace as the
  calls before it left it). \<open>staged_colregs\<close> are the entries staged so far: the
  first \<^verbatim>\<open>colreg_pos\<close> entries of the block.
\<close>

fun first_error :: "int list \<Rightarrow> int" where
  "first_error [] = 0"
| "first_error (r # rs) = (if r < 0 then r else first_error rs)"

fun replay_rets ::
  "(event list \<Rightarrow> 32 word \<Rightarrow> 32 word \<Rightarrow> 32 word \<Rightarrow> 32 word \<Rightarrow> 32 word \<Rightarrow> int)
    \<Rightarrow> ptr \<Rightarrow> event list \<Rightarrow> fb_colreg list \<Rightarrow> int list" where
  "replay_rets f p tr [] = []"
| "replay_rets f p tr (c # cs) = colreg_ret f tr c # replay_rets f p (tr @ [colreg_call p c]) cs"

definition staged_colregs :: "world \<Rightarrow> fb_info \<Rightarrow> fb_colreg list" where
  "staged_colregs w v =
     take (colreg_pos (par v)) (case colregs w (colreg (par v)) of None \<Rightarrow> [] | Some a \<Rightarrow> a)"

text \<open>The inodes whose mappings a trace walks, in order; the value \<^verbatim>\<open>do_fb_ns_remap\<close>
  returned for each tracked inode (the second list stops where a call faults); and
  the events of the second loop of \<^verbatim>\<open>do_fb_ns_remap\<close>.\<close>

fun walked :: "event list \<Rightarrow> ptr list" where
  "walked [] = []"
| "walked (ImmapWalk m # evs) = m # walked evs"
| "walked (ev # evs) = walked evs"

fun remap_rets :: "env \<Rightarrow> ptr \<Rightarrow> fb_inode list \<Rightarrow> world \<Rightarrow> int list" where
  "remap_rets e virt [] w = []"
| "remap_rets e virt (x # xs) w =
     (case do_fb_ns_remap e virt (i_mapping e (inode x)) w of
        Inl f \<Rightarrow> []
      | Inr (ret, w1) \<Rightarrow> ret # remap_rets e virt xs w1)"

definition is_remap_step :: "event \<Rightarrow> bool" where
  "is_remap_step ev \<longleftrightarrow>
     (case ev of ZapPageRange m s n \<Rightarrow> True | FileMmap m s r \<Rightarrow> True | _ \<Rightarrow> False)"









text \<open>
  When a switch cannot fault. \<open>mm_consistent e m\<close>: every region the memory manager
  lists for the address space \<open>m\<close> is found again by \<^verbatim>\<open>find_vma\<close> and belongs to
  \<open>m\<close>. \<open>switch_ready\<close>: the handle is a shadow that passes the consistency check,
  its tracked inodes are not \<open>NULL\<close> and their address spaces are consistent, and,
  for an activation with staged palette entries, these lie inside their block and
  the hardware driver has a palette operation.
\<close>

definition mm_consistent :: "env \<Rightarrow> ptr \<Rightarrow> bool" where
  "mm_consistent e m \<longleftrightarrow>
     list_all (\<lambda>vma. case find_vma e (vm_mm vma) (vm_start vma) of
                        None \<Rightarrow> False
                      | Some vma' \<Rightarrow> vm_f_mapping vma' = m) (i_mmap e m)"

definition switch_ready :: "env \<Rightarrow> ptr \<Rightarrow> bool \<Rightarrow> world \<Rightarrow> bool" where
  "switch_ready e virt activate w \<longleftrightarrow>
     (case fb_infos w virt of
        None \<Rightarrow> False
      | Some v \<Rightarrow>
          fb_debug_diff virt w = Inr ()
          \<and> list_all (\<lambda>x. inode x \<noteq> NULL \<and> mm_consistent e (i_mapping e (inode x))) (inodes (par v))
          \<and> (activate \<and> 0 < colreg_pos (par v) \<longrightarrow>
                 length (staged_colregs w v) = colreg_pos (par v)
                 \<and> hw_fb_setcolreg e (info (par v)) \<noteq> None))"

text \<open>The shadow that \<^verbatim>\<open>fb_ns_info_alloc\<close> builds for the hardware device \<open>hw\<close> at
  address \<open>d\<close>, in the namespace table \<open>n\<close>, with its backing buffer at \<open>vmem\<close>.\<close>

definition fresh_shadow :: "ptr \<Rightarrow> ptr \<Rightarrow> fb_info \<Rightarrow> ptr \<Rightarrow> fb_info" where
  "fresh_shadow n d hw vmem =
     \<lparr>node = node hw, flags = flags hw OR FBINFO_DEV_NS, count = 0,
      screen_base = vmem, screen_size = screen_size hw,
      smem_start = vmem, smem_len = smem_len hw, var = var hw,
      par = \<lparr>fb_ns = n, info = d, ns_var = zero_var, colreg = NULL, colreg_pos = 0,
             colreg_len = 0, vmem_buf = vmem, vmem_len = smem_len hw,
             ns_screen_base = screen_base hw, ns_screen_size = screen_size hw, inodes = []\<rparr>\<rparr>"

subsection \<open>A concrete machine\<close>

text \<open>
  One hardware framebuffer at address 100 (device 0, a buffer of four bytes at 1000),
  the table of a passive namespace 20 at address 10 and the table of the active
  namespace 21 at address 11. \<open>ex_world0\<close> has no shadow yet; in \<open>ex_world1\<close> the
  passive namespace holds the shadow that \<^verbatim>\<open>get_fb_info_ns\<close> makes at address 200 with
  its backing buffer at 2000, and the active namespace holds one at address 400 with
  its buffer at 4000.
\<close>

definition zero_ns :: fb_ns_info where
  "zero_ns = \<lparr>fb_ns = NULL, info = NULL, ns_var = zero_var, colreg = NULL, colreg_pos = 0,
               colreg_len = 0, vmem_buf = NULL, vmem_len = 0, ns_screen_base = NULL,
               ns_screen_size = 0, inodes = []\<rparr>"

definition ex_hw :: fb_info where
  "ex_hw = \<lparr>node = 0, flags = 0, count = 1, screen_base = 1000, screen_size = 4,
            smem_start = 1000, smem_len = 4,
            var = \<lparr>xres = 640, yres = 480, bits_per_pixel = 32\<rparr>, par = zero_ns\<rparr>"

definition ex_env :: env where
  "ex_env = \<lparr>cur_fb_ns = 10, is_active_dev_ns = (\<lambda>d. d = 21), init_dev_ns = 22,
             framebuffer_alloc_ret = 200, vmalloc_ret = 2000, krealloc_ret = 3000,
             kmalloc_fbops_ok = True, krealloc_inodes_ok = True,
             kmalloc_mmlist_ok = (\<lambda>k. True), hw_fb_sync = (\<lambda>p. False),
             hw_fb_setcolreg = (\<lambda>p. Some (\<lambda>tr rno r g b t. 0)),
             hw_fb_set_par = (\<lambda>p. Some (\<lambda>tr v. 0)),
             i_mapping = (\<lambda>i. i + 1), i_mmap = (\<lambda>m. []), find_vma = (\<lambda>m s. None),
             f_mmap = (\<lambda>tr vma. 0), config_pan = False\<rparr>"

definition ex_world0 :: world where
  "ex_world0 = \<lparr>fb_infos = [100 \<mapsto> ex_hw],
                fb_nss = [10 \<mapsto> \<lparr>fb = replicate FB_MAX NULL, dev_ns = 20, users = 1\<rparr>,
                          11 \<mapsto> \<lparr>fb = replicate FB_MAX NULL, dev_ns = 21, users = 1\<rparr>],
                colregs = Map.empty, vmalloc_live = {}, mem = (\<lambda>a. 7), trace = []\<rparr>"

definition ex_shadow :: "ptr \<Rightarrow> ptr \<Rightarrow> fb_info" where
  "ex_shadow fb_nsp vmem =
     \<lparr>node = 0, flags = FBINFO_DEV_NS, count = 1, screen_base = vmem, screen_size = 4,
      smem_start = vmem, smem_len = 4,
      var = \<lparr>xres = 640, yres = 480, bits_per_pixel = 32\<rparr>,
      par = \<lparr>fb_ns = fb_nsp, info = 100, ns_var = zero_var, colreg = NULL, colreg_pos = 0,
             colreg_len = 0, vmem_buf = vmem, vmem_len = 4, ns_screen_base = 1000,
             ns_screen_size = 4, inodes = []\<rparr>\<rparr>"

definition ex_world1 :: world where
  "ex_world1 = \<lparr>fb_infos = [100 \<mapsto> ex_hw, 200 \<mapsto> ex_shadow 10 2000, 400 \<mapsto> ex_shadow 11 4000],
                fb_nss = [10 \<mapsto> \<lparr>fb = (replicate FB_MAX NULL)[0 := 200], dev_ns = 20, users = 2\<rparr>,
                          11 \<mapsto> \<lparr>fb = (replicate FB_MAX NULL)[0 := 400], dev_ns = 21, users = 2\<rparr>],
                colregs = Map.empty, vmalloc_live = {2000, 4000}, mem = (\<lambda>a. 7), trace = []\<rparr>"

text \<open>
  Two geometries to stage; \<open>ex_staged g\<close> is \<open>ex_world1\<close> after the passive namespace
  has staged \<open>g\<close> on its shadow. \<open>ex_pal_world\<close> holds three staged palette entries
  for the same shadow, and the driver of \<open>ex_pal_env\<close> rejects register 8 with -22 and
  register 9 with -5. \<open>ex_world_z\<close> is the machine with a hardware device that has
  no buffer at all; in \<open>ex_world_zbad\<close> the driver of that device has since changed
  the size it reports, from 4 to 5.
\<close>

definition ex_g1 :: fb_var_screeninfo where
  "ex_g1 = \<lparr>xres = 1024, yres = 768, bits_per_pixel = 32\<rparr>"

definition ex_g2 :: fb_var_screeninfo where
  "ex_g2 = \<lparr>xres = 800, yres = 600, bits_per_pixel = 32\<rparr>"

definition ex_staged :: "fb_var_screeninfo \<Rightarrow> world" where
  "ex_staged g =
     ex_world1\<lparr>fb_infos := (fb_infos ex_world1)
        (200 \<mapsto> (ex_shadow 10 2000)\<lparr>var := g, par := (par (ex_shadow 10 2000))\<lparr>ns_var := g\<rparr>\<rparr>)\<rparr>"

definition ex_c1 :: fb_colreg where
  "ex_c1 = \<lparr>regno = 7, red = 1, green = 2, blue = 3, transp = 4\<rparr>"

definition ex_c2 :: fb_colreg where
  "ex_c2 = \<lparr>regno = 8, red = 5, green = 6, blue = 7, transp = 8\<rparr>"

definition ex_c3 :: fb_colreg where
  "ex_c3 = \<lparr>regno = 9, red = 9, green = 10, blue = 11, transp = 12\<rparr>"

definition ex_pal_shadow :: fb_info where
  "ex_pal_shadow = (ex_shadow 10 2000)
     \<lparr>par := (par (ex_shadow 10 2000))\<lparr>colreg := 3000, colreg_pos := 3, colreg_len := 256\<rparr>\<rparr>"

definition ex_pal_world :: world where
  "ex_pal_world = ex_world1
     \<lparr>fb_infos := (fb_infos ex_world1)(200 \<mapsto> ex_pal_shadow),
      colregs := [3000 \<mapsto> ex_c1 # ex_c2 # ex_c3 # replicate 253 zero_colreg]\<rparr>"

definition ex_pal_env :: env where
  "ex_pal_env = ex_env
     \<lparr>hw_fb_setcolreg := (\<lambda>p. Some (\<lambda>tr rno r g b t. if rno = 8 then - 22 else if rno = 9 then - 5 else 0))\<rparr>"

definition ex_hw0 :: fb_info where
  "ex_hw0 = ex_hw\<lparr>screen_base := NULL, smem_start := 0, smem_len := 0\<rparr>"

definition ex_shadow0 :: fb_info where
  "ex_shadow0 = (ex_shadow 10 NULL)
     \<lparr>smem_len := 0, par := (par (ex_shadow 10 NULL))\<lparr>vmem_len := 0, ns_screen_base := NULL\<rparr>\<rparr>"

definition ex_world_z :: world where
  "ex_world_z = ex_world1\<lparr>fb_infos := [100 \<mapsto> ex_hw0, 200 \<mapsto> ex_shadow0], vmalloc_live := {}\<rparr>"

definition ex_world_zbad :: world where
  "ex_world_zbad =
     ex_world_z\<lparr>fb_infos := (fb_infos ex_world_z)(100 \<mapsto> ex_hw0\<lparr>screen_size := 5\<rparr>)\<rparr>"


text \<open>
  \<open>ex_map_world\<close>: the passive shadow tracks the inodes 50 and 52, each mapped once,
  by the processes 60 and 61. In \<open>ex_map_env\<close> the memory manager reports these
  mappings and the file's \<^verbatim>\<open>mmap\<close> succeeds; in \<open>ex_fail_env\<close> it fails with -5 for
  the first process and with -7 for the second.
\<close>

definition ex_vma1 :: vm_area_struct where
  "ex_vma1 = \<lparr>vm_mm = 60, vm_start = 28672, vm_end = 28676, vm_f_mapping = 51\<rparr>"

definition ex_vma2 :: vm_area_struct where
  "ex_vma2 = \<lparr>vm_mm = 61, vm_start = 32768, vm_end = 32772, vm_f_mapping = 53\<rparr>"

definition ex_map_env :: env where
  "ex_map_env = ex_env
     \<lparr>i_mmap := (\<lambda>m. if m = 51 then [ex_vma1] else if m = 53 then [ex_vma2] else []),
      find_vma := (\<lambda>m s. if m = 60 then Some ex_vma1 else if m = 61 then Some ex_vma2 else None)\<rparr>"

definition ex_fail_env :: env where
  "ex_fail_env = ex_map_env\<lparr>f_mmap := (\<lambda>tr vma. if vm_mm vma = 60 then - 5 else - 7)\<rparr>"

definition ex_map_shadow :: fb_info where
  "ex_map_shadow = (ex_shadow 10 2000)
     \<lparr>par := (par (ex_shadow 10 2000))
        \<lparr>inodes := [\<lparr>inode = 50, use_count = 1\<rparr>, \<lparr>inode = 52, use_count = 1\<rparr>]\<rparr>\<rparr>"

definition ex_map_world :: world where
  "ex_map_world = ex_world1\<lparr>fb_infos := (fb_infos ex_world1)(200 \<mapsto> ex_map_shadow)\<rparr>"

definition ex_map_trace :: "int \<Rightarrow> int \<Rightarrow> event list" where
  "ex_map_trace r1 r2 =
     [ImmapWalk 51, ZapPageRange 60 28672 4, FileMmap 60 28672 r1,
      ImmapWalk 53, ZapPageRange 61 32768 4, FileMmap 61 32768 r2]"

lemmas ex_map_defs = ex_vma1_def ex_vma2_def ex_map_env_def ex_fail_env_def ex_map_shadow_def
  ex_map_world_def ex_map_trace_def

lemmas ex_defs = ex_world1_def ex_shadow_def ex_hw_def ex_env_def ex_staged_def ex_g1_def ex_g2_def
  zero_ns_def zero_var_def FBINFO_DEV_NS_def FB_MAX_def

lemmas step_defs = fb_ns_set_par_def fb_debug_diff_def upd_fb_def fb_info_is_virt_def
  do_fb_activate_ns_def fb_ns_swap_mmap_def fb_ns_swap_vmem_def fb_virt_to_info_def
  fb_ns_apply_colreg_def fb_ns_apply_setpar_def emit_def Let_def fb_ns_setcolreg_def
  krealloc_colreg_def do_fb_ns_remap_def

section \<open>Properties\<close>

subsection \<open>Small facts\<close>

lemma ex_shadow_is_virt: "fb_info_is_virt (ex_shadow n b)"
  by (simp add: fb_info_is_virt_def ex_shadow_def FBINFO_DEV_NS_def)

lemma ex_hw_not_virt: "\<not> fb_info_is_virt ex_hw"
  by (simp add: fb_info_is_virt_def ex_hw_def)

lemma find_fb_inode_from_None:
  "ino \<notin> inode ` set xs \<Longrightarrow> find_fb_inode_from xs ino i = None"
  by (induction xs arbitrary: i) auto

subsection \<open>Worlds that differ by more events\<close>

lemma ext_by_refl: "ext_by P w w"
  unfolding ext_by_def by (rule exI [of _ "[]"]) simp

lemma ext_by_trans: "ext_by P w w1 \<Longrightarrow> ext_by P w1 w2 \<Longrightarrow> ext_by P w w2"
  unfolding ext_by_def
proof (elim exE conjE)
  fix evs evs'
  assume a: "w1 = w\<lparr>trace := trace w @ evs\<rparr>" "list_all P evs"
    "w2 = w1\<lparr>trace := trace w1 @ evs'\<rparr>" "list_all P evs'"
  show "\<exists>evs. w2 = w\<lparr>trace := trace w @ evs\<rparr> \<and> list_all P evs"
    by (rule exI [of _ "evs @ evs'"]) (simp add: a)
qed

lemma ext_by_emit: "P ev \<Longrightarrow> ext_by P w (emit ev w)"
  unfolding ext_by_def by (rule exI [of _ "[ev]"]) (simp add: emit_def)

subsection \<open>What re-pointing does\<close>

text \<open>The second loop of \<^verbatim>\<open>do_fb_ns_remap\<close> adds only unmap and map events and returns a
  value that is not positive; one call of \<^verbatim>\<open>do_fb_ns_remap\<close> walks its inode once;
  the loop of \<^verbatim>\<open>fb_ns_swap_mmap\<close> walks every tracked inode, in order, and its result
  is negative exactly when one of the calls returned a negative value.\<close>

lemma walked_append: "walked (xs @ ys) = walked xs @ walked ys"
  by (induction xs rule: walked.induct) simp_all

lemma walked_repoint_free:
  "list_all (\<lambda>ev. phase_of ev \<noteq> Repoint) evs \<Longrightarrow> walked evs = []"
  by (induction evs rule: walked.induct) simp_all

lemma is_remap_step_repoint: "is_remap_step ev \<Longrightarrow> is_repoint ev"
  by (cases ev) (simp_all add: is_remap_step_def is_repoint_def)

lemma walked_remap_steps: "list_all is_remap_step evs \<Longrightarrow> walked evs = []"
  by (induction evs rule: walked.induct) (simp_all add: is_remap_step_def)

lemma remap_mms_steps:
  "remap_mms e m ms err w = Inr (r, w') \<Longrightarrow> ext_by is_remap_step w w'"
proof (induction ms arbitrary: err w)
  case Nil
  then show ?case by (simp add: ext_by_refl)
next
  case (Cons x ms)
  show ?case
  proof (cases "find_vma e (mm x) (start x)")
    case None
    with Cons.prems show ?thesis by simp
  next
    case (Some vma)
    let ?w1 = "emit (ZapPageRange (mm x) (start x) (mm_size x)) w"
    let ?w2 = "emit (FileMmap (vm_mm vma) (vm_start vma) (f_mmap e (trace ?w1) vma)) ?w1"
    from Cons.prems Some have "\<exists>err'. remap_mms e m ms err' ?w2 = Inr (r, w')"
      by (auto simp: Let_def split: if_splits)
    then obtain err' where "remap_mms e m ms err' ?w2 = Inr (r, w')" ..
    then have "ext_by is_remap_step ?w2 w'" by (rule Cons.IH)
    moreover have "ext_by is_remap_step w ?w2"
      by (rule ext_by_trans [OF ext_by_emit ext_by_emit]) (simp_all add: is_remap_step_def)
    ultimately show ?thesis by (rule ext_by_trans [rotated])
  qed
qed

lemma remap_mms_ret:
  "remap_mms e m ms err w = Inr (r, w') \<Longrightarrow> err \<le> 0 \<Longrightarrow> r \<le> 0"
proof (induction ms arbitrary: err w)
  case Nil
  then show ?case by simp
next
  case (Cons x ms)
  show ?case
  proof (cases "find_vma e (mm x) (start x)")
    case None
    with Cons.prems show ?thesis by simp
  next
    case (Some vma)
    let ?w1 = "emit (ZapPageRange (mm x) (start x) (mm_size x)) w"
    let ?w2 = "emit (FileMmap (vm_mm vma) (vm_start vma) (f_mmap e (trace ?w1) vma)) ?w1"
    let ?ret = "f_mmap e (trace ?w1) vma"
    let ?err = "if ?ret < 0 \<and> err = 0 then ?ret else err"
    from Cons.prems(2) have "?err \<le> 0" by simp
    moreover from Cons.prems(1) Some have "remap_mms e m ms ?err ?w2 = Inr (r, w')"
      by (auto simp: Let_def split: if_splits)
    ultimately have "?err \<le> 0" "remap_mms e m ms ?err ?w2 = Inr (r, w')" by blast+
    then show ?thesis by (rule Cons.IH [rotated])
  qed
qed

lemma collect_mm_ret: "collect_mm ok k vmas mmhead = (err, l) \<Longrightarrow> err \<le> 0"
  by (induction vmas arbitrary: k mmhead) (auto simp: ENOMEM_def split: if_splits)

lemma do_fb_ns_remap_ext:
  assumes "do_fb_ns_remap e virt m w = Inr (r, w')"
  shows "r \<le> 0 \<and> (\<exists>evs. w' = w\<lparr>trace := trace w @ ImmapWalk m # evs\<rparr> \<and> list_all is_remap_step evs)"
proof -
  obtain err mmhead where c: "collect_mm (kmalloc_mmlist_ok e) 0 (i_mmap e m) [] = (err, mmhead)"
    by (cases "collect_mm (kmalloc_mmlist_ok e) 0 (i_mmap e m) []")
  from collect_mm_ret [OF c] have err: "err \<le> 0" .
  show ?thesis
  proof (cases "err < 0")
    case True
    with assms c have "r = err" "w' = emit (ImmapWalk m) w"
      by (simp_all add: do_fb_ns_remap_def Let_def)
    with err show ?thesis by (intro conjI exI [of _ "[]"]) (simp_all add: emit_def)
  next
    case False
    with assms c have run: "remap_mms e m mmhead err (emit (ImmapWalk m) w) = Inr (r, w')"
      by (simp add: do_fb_ns_remap_def Let_def)
    from remap_mms_steps [OF run] obtain evs where
      evs: "w' = (emit (ImmapWalk m) w)\<lparr>trace := trace (emit (ImmapWalk m) w) @ evs\<rparr>"
        "list_all is_remap_step evs"
      by (auto simp: ext_by_def)
    from remap_mms_ret [OF run err] evs show ?thesis
      by (intro conjI exI [of _ evs]) (simp_all add: emit_def)
  qed
qed

lemma walk_repoint: "is_repoint (ImmapWalk m)"
  by (simp add: is_repoint_def)

lemma swap_mmap_loop_ext:
  "swap_mmap_loop e virt xs err w = Inr (r, w') \<Longrightarrow>
     \<exists>evs. w' = w\<lparr>trace := trace w @ evs\<rparr> \<and> list_all is_repoint evs
        \<and> walked evs = map (\<lambda>x. i_mapping e (inode x)) xs"
proof (induction xs arbitrary: err w)
  case Nil
  then show ?case by (intro exI [of _ "[]"]) simp
next
  case (Cons x xs)
  show ?case
  proof (cases "do_fb_ns_remap e virt (i_mapping e (inode x)) w")
    case (Inl f)
    with Cons.prems show ?thesis by (simp split: if_splits)
  next
    case (Inr p)
    obtain ret w1 where p: "p = (ret, w1)" by (cases p)
    from Cons.prems Inr p have "\<exists>err'. swap_mmap_loop e virt xs err' w1 = Inr (r, w')"
      by (auto split: if_splits)
    then obtain err' where "swap_mmap_loop e virt xs err' w1 = Inr (r, w')" ..
    from Cons.IH [OF this] obtain evs2 where
      2: "w' = w1\<lparr>trace := trace w1 @ evs2\<rparr>" "list_all is_repoint evs2"
        "walked evs2 = map (\<lambda>x. i_mapping e (inode x)) xs"
      by blast
    from do_fb_ns_remap_ext [OF Inr [unfolded p]] obtain evs1 where
      1: "w1 = w\<lparr>trace := trace w @ ImmapWalk (i_mapping e (inode x)) # evs1\<rparr>"
        "list_all is_remap_step evs1"
      by blast
    from 1(2) have r1: "list_all is_repoint evs1"
      by (auto simp: list_all_iff intro: is_remap_step_repoint)
    show ?thesis
      by (rule exI [of _ "ImmapWalk (i_mapping e (inode x)) # evs1 @ evs2"])
         (simp add: 1 2 r1 walked_append walked_remap_steps walk_repoint)
  qed
qed

lemma swap_mmap_loop_rets:
  "swap_mmap_loop e virt xs err w = Inr (r, w') \<Longrightarrow> err \<le> 0 \<Longrightarrow>
     length (remap_rets e virt xs w) = length xs \<and> r \<le> 0
     \<and> (r < 0 \<longleftrightarrow> err < 0 \<or> (\<exists>x \<in> set (remap_rets e virt xs w). x < 0))
     \<and> (r < 0 \<longrightarrow> r = err \<or> r \<in> set (remap_rets e virt xs w))"
proof (induction xs arbitrary: err w)
  case Nil
  then show ?case by auto
next
  case (Cons x xs)
  show ?case
  proof (cases "do_fb_ns_remap e virt (i_mapping e (inode x)) w")
    case (Inl f)
    with Cons.prems show ?thesis by (simp split: if_splits)
  next
    case (Inr p)
    obtain ret w1 where p: "p = (ret, w1)" by (cases p)
    from do_fb_ns_remap_ext [OF Inr [unfolded p]] have ret: "ret \<le> 0" by simp
    let ?err = "if ret < 0 \<or> err = 0 then ret else err"
    from Cons.prems Inr p have run: "swap_mmap_loop e virt xs ?err w1 = Inr (r, w')"
      by (auto split: if_splits)
    from ret Cons.prems(2) have "?err \<le> 0" by simp
    from Cons.IH [OF run this] Inr p ret Cons.prems(2) show ?thesis
      by (auto split: if_splits)
  qed
qed









lemma fb_ns_swap_mmap_frame:
  "fb_ns_swap_mmap e virt a w = Inr (r, w') \<Longrightarrow> ext_by is_repoint w w'"
  by (auto simp: fb_ns_swap_mmap_def ext_by_def split: option.splits dest!: swap_mmap_loop_ext)

subsection \<open>What the copy and the replay do\<close>

text \<open>Without a length or without a buffer the copy step is the consistency check and
  nothing more.\<close>

lemma fb_ns_swap_vmem_zero:
  assumes "fb_infos w virt = Some v" "fb_infos w (info (par v)) = Some hw"
    "smem_len v = 0 \<or> screen_base hw = NULL \<or> screen_base v = NULL"
  shows "fb_ns_swap_vmem e virt activate w =
           (case fb_debug_diff virt w of Inl f \<Rightarrow> Inl f | Inr u \<Rightarrow> Inr w)"
  using assms
  by (auto simp: fb_ns_swap_vmem_def fb_virt_to_info_def fb_debug_diff_def Let_def)

lemma ext_by_grows: "ext_by P w w' \<Longrightarrow> grows_by P w w' \<and> same_store w w' \<and> mem w' = mem w"
  by (auto simp: ext_by_def grows_by_def same_store_def)

lemma fb_ns_swap_mmap_grows:
  "fb_ns_swap_mmap e virt a w = Inr (r, w') \<Longrightarrow>
     grows_by is_repoint w w' \<and> same_store w w' \<and> mem w' = mem w"
  by (rule ext_by_grows) (rule fb_ns_swap_mmap_frame)

lemma fb_ns_swap_vmem_grows:
  assumes "fb_ns_swap_vmem e virt a w = Inr w'"
  shows "grows_by is_copy w w' \<and> same_store w w'"
  using assms
  by (auto simp: fb_ns_swap_vmem_def Let_def emit_def is_copy_def grows_by_def same_store_def
      split: sum.splits option.splits if_splits)

lemma drop_nth_Cons: "k < length arr \<Longrightarrow> drop k arr = arr ! k # drop (Suc k) arr"
  by (simp add: Cons_nth_drop_Suc)

lemma apply_colreg_loop_spec:
  "k + i \<le> length arr \<Longrightarrow>
   apply_colreg_loop (Some f) p arr k err w i =
     Inr (if err = 0 then first_error (replay_rets f p (trace w) (take i (drop k arr))) else err,
          w\<lparr>trace := trace w @ map (colreg_call p) (take i (drop k arr))\<rparr>)"
proof (induction i arbitrary: k err w)
  case 0
  then show ?case by simp
next
  case (Suc i)
  from Suc.prems have k: "k < length arr" and le: "Suc k + i \<le> length arr" by simp_all
  from k have nle: "\<not> length arr \<le> k" by simp
  show ?case
    by (simp add: Suc.IH [OF le] drop_nth_Cons [OF k] Let_def emit_def nle)
qed


lemma apply_colreg_loop_frame:
  "apply_colreg_loop op p arr k err w i = Inr (r, w') \<Longrightarrow> ext_by is_replay w w'"
proof (induction i arbitrary: k err w)
  case 0
  then show ?case by (simp add: ext_by_refl)
next
  case (Suc i)
  from Suc.prems obtain f where f: "op = Some f" and k: "\<not> length arr \<le> k"
    by (auto split: if_splits option.splits)
  let ?w1 = "emit (colreg_call p (arr ! k)) w"
  from Suc.prems f k have "\<exists>err'. apply_colreg_loop op p arr (Suc k) err' ?w1 i = Inr (r, w')"
    by (auto simp: Let_def split: if_splits)
  then obtain err' where "apply_colreg_loop op p arr (Suc k) err' ?w1 i = Inr (r, w')" ..
  then have "ext_by is_replay ?w1 w'" by (rule Suc.IH)
  moreover have "ext_by is_replay w ?w1"
    by (rule ext_by_emit) (simp add: is_replay_def colreg_call_def)
  ultimately show ?case by (rule ext_by_trans [rotated])
qed

lemma fb_ns_apply_colreg_grows:
  assumes "fb_ns_apply_colreg e virt w = Inr (r, w')"
  shows "grows_by is_replay w w' \<and> mem w' = mem w"
proof -
  from assms obtain w1 where
    "ext_by is_replay w w1" "trace w' = trace w1" "mem w' = mem w1"
    by (auto simp: fb_ns_apply_colreg_def upd_fb_def Let_def
        split: option.splits sum.splits dest!: apply_colreg_loop_frame)
  then show ?thesis by (auto simp: ext_by_def grows_by_def)
qed

lemma fb_ns_apply_setpar_same:
  "fb_ns_apply_setpar e virt w = Inr (r, w') \<Longrightarrow> r = 0 \<and> w' = w"
  by (auto simp: fb_ns_apply_setpar_def split: option.splits sum.splits)

lemma fb_debug_diff_cong:
  "fb_infos w' = fb_infos w \<Longrightarrow> fb_debug_diff virt w' = fb_debug_diff virt w"
  by (auto simp: fb_debug_diff_def split: option.splits)

text \<open>The three ways in which \<^verbatim>\<open>do_fb_activate_ns\<close> completes.\<close>

lemma do_fb_activate_ns_cases:
  assumes run: "do_fb_activate_ns e virt a w = Inr (r, w')"
  obtains
    (failed) "fb_ns_swap_mmap e virt a w = Inr (r, w')" "r < 0"
  | (deactivated) ra w1 where
      "fb_ns_swap_mmap e virt a w = Inr (ra, w1)" "\<not> ra < 0"
      "fb_ns_swap_vmem e virt a w1 = Inr w'" "\<not> a" "r = 0"
  | (activated) ra w1 w2 rc w3 where
      "fb_ns_swap_mmap e virt a w = Inr (ra, w1)" "\<not> ra < 0"
      "fb_ns_swap_vmem e virt a w1 = Inr w2" "a" "r = 0"
      "fb_ns_apply_colreg e virt w2 = Inr (rc, w3)"
      "w' = w3 \<or> (\<exists>p. w' = emit (PanDisplay p) w3)"
proof -
  from run obtain ra w1 where m: "fb_ns_swap_mmap e virt a w = Inr (ra, w1)"
    by (auto simp: do_fb_activate_ns_def split: sum.splits)
  show thesis
  proof (cases "ra < 0")
    case True
    with run m have "r = ra" "w' = w1" by (simp_all add: do_fb_activate_ns_def)
    with m True show thesis by (intro failed) simp_all
  next
    case nonneg: False
    with run m obtain w2 where v: "fb_ns_swap_vmem e virt a w1 = Inr w2"
      by (auto simp: do_fb_activate_ns_def split: sum.splits)
    show thesis
    proof (cases a)
      case False
      with run m nonneg v have "r = 0" "w' = w2" by (simp_all add: do_fb_activate_ns_def)
      with m nonneg v False show thesis by (intro deactivated [of ra w1]) simp_all
    next
      case True
      with run m nonneg v obtain rc w3 where c: "fb_ns_apply_colreg e virt w2 = Inr (rc, w3)"
        by (auto simp: do_fb_activate_ns_def split: sum.splits)
      with run m nonneg v True obtain rp w4 where p: "fb_ns_apply_setpar e virt w3 = Inr (rp, w4)"
        by (auto simp: do_fb_activate_ns_def split: sum.splits)
      from fb_ns_apply_setpar_same [OF p] have w4: "w4 = w3" by simp
      from run m nonneg v True c p w4 have
        "r = 0" "w' = w3 \<or> (\<exists>p. w' = emit (PanDisplay p) w3)"
        by (auto simp: do_fb_activate_ns_def split: sum.splits if_splits)
      with m nonneg v True c show thesis by (intro activated [of ra w1 w2 rc w3])
    qed
  qed
qed




lemma staged_colregs_cong:
  "colregs w' = colregs w \<Longrightarrow> staged_colregs w' v = staged_colregs w v"
  by (simp add: staged_colregs_def)

subsection \<open>A switch that is ready completes\<close>

lemma collect_mm_ok:
  assumes "collect_mm ok k vmas acc = (err, l)"
    and "list_all Q acc"
    and "list_all (\<lambda>vma. Q \<lparr>mm = vm_mm vma, start = vm_start vma, mm_size = vm_end vma - vm_start vma\<rparr>) vmas"
  shows "list_all Q l"
  using assms
  by (induction vmas arbitrary: k acc) (auto split: if_splits)

lemma remap_mms_total:
  "list_all (\<lambda>x. case find_vma e (mm x) (start x) of None \<Rightarrow> False
                   | Some vma' \<Rightarrow> vm_f_mapping vma' = m) ms \<Longrightarrow>
   \<exists>r w'. remap_mms e m ms err w = Inr (r, w')"
  by (induction ms arbitrary: err w) (auto simp: Let_def split: option.splits)

lemma do_fb_ns_remap_total:
  assumes "mm_consistent e m"
  shows "\<exists>r w'. do_fb_ns_remap e virt m w = Inr (r, w')"
proof -
  obtain err mmhead where c: "collect_mm (kmalloc_mmlist_ok e) 0 (i_mmap e m) [] = (err, mmhead)"
    by (cases "collect_mm (kmalloc_mmlist_ok e) 0 (i_mmap e m) []")
  from assms have "list_all (\<lambda>x. case find_vma e (mm x) (start x) of None \<Rightarrow> False
                   | Some vma' \<Rightarrow> vm_f_mapping vma' = m) mmhead"
    by (intro collect_mm_ok [OF c]) (simp_all add: mm_consistent_def)
  from remap_mms_total [OF this] c show ?thesis
    by (simp add: do_fb_ns_remap_def Let_def)
qed

lemma swap_mmap_loop_total:
  "list_all (\<lambda>x. inode x \<noteq> NULL \<and> mm_consistent e (i_mapping e (inode x))) xs \<Longrightarrow>
   \<exists>r w'. swap_mmap_loop e virt xs err w = Inr (r, w')"
proof (induction xs arbitrary: err w)
  case Nil
  then show ?case by simp
next
  case (Cons x xs)
  then have "mm_consistent e (i_mapping e (inode x))" and nn: "inode x \<noteq> NULL" by simp_all
  from do_fb_ns_remap_total [OF this(1)] obtain ret w1 where
    "do_fb_ns_remap e virt (i_mapping e (inode x)) w = Inr (ret, w1)" by blast
  moreover from Cons have
    "\<exists>r w'. swap_mmap_loop e virt xs (if ret < 0 \<or> err = 0 then ret else err) w1 = Inr (r, w')"
    by simp
  ultimately show ?case using nn by simp
qed

lemma fb_ns_swap_vmem_total:
  "fb_debug_diff virt w = Inr () \<Longrightarrow> \<exists>w'. fb_ns_swap_vmem e virt a w = Inr w'"
  by (auto simp: fb_ns_swap_vmem_def fb_debug_diff_def fb_virt_to_info_def Let_def
      split: option.splits if_splits)

lemma fb_ns_apply_colreg_total:
  assumes v: "fb_infos w virt = Some v" "fb_info_is_virt v"
    and staged: "0 < colreg_pos (par v) \<longrightarrow>
       length (staged_colregs w v) = colreg_pos (par v) \<and> hw_fb_setcolreg e (info (par v)) \<noteq> None"
  shows "\<exists>r w'. fb_ns_apply_colreg e virt w = Inr (r, w') \<and> fb_infos w' virt \<noteq> None"
proof (cases "colreg_pos (par v)")
  case 0
  with v show ?thesis
    by (simp add: fb_ns_apply_colreg_def fb_virt_to_info_def upd_fb_def)
next
  case (Suc n)
  with staged obtain f where f: "hw_fb_setcolreg e (info (par v)) = Some f"
    and len: "length (staged_colregs w v) = colreg_pos (par v)" by auto
  let ?arr = "case colregs w (colreg (par v)) of None \<Rightarrow> [] | Some a \<Rightarrow> a"
  from len have le: "0 + colreg_pos (par v) \<le> length ?arr"
    by (simp add: staged_colregs_def)
  show ?thesis
    using v f
    by (simp add: fb_ns_apply_colreg_def fb_virt_to_info_def apply_colreg_loop_spec [OF le]
        upd_fb_def)
qed

lemma do_fb_activate_ns_completes:
  assumes "switch_ready e virt activate w"
  shows "\<exists>r w'. do_fb_activate_ns e virt activate w = Inr (r, w')"
proof -
  from assms obtain v where v: "fb_infos w virt = Some v"
    and diff: "fb_debug_diff virt w = Inr ()"
    and ino: "list_all (\<lambda>x. inode x \<noteq> NULL \<and> mm_consistent e (i_mapping e (inode x))) (inodes (par v))"
    and staged: "activate \<and> 0 < colreg_pos (par v) \<longrightarrow>
       length (staged_colregs w v) = colreg_pos (par v) \<and> hw_fb_setcolreg e (info (par v)) \<noteq> None"
    by (auto simp: switch_ready_def split: option.splits)
  from v diff have virt: "fb_info_is_virt v"
    by (auto simp: fb_debug_diff_def split: if_splits)
  from swap_mmap_loop_total [OF ino, of virt 0 w] obtain ra w1 where
    "swap_mmap_loop e virt (inodes (par v)) 0 w = Inr (ra, w1)" by blast
  with v have m: "fb_ns_swap_mmap e virt activate w = Inr (ra, w1)"
    by (simp add: fb_ns_swap_mmap_def)
  from fb_ns_swap_mmap_grows [OF m] have s1: "same_store w w1" by simp
  then have fb1: "fb_infos w1 = fb_infos w" by (simp add: same_store_def)
  from fb_debug_diff_cong [OF fb1, of virt] diff have "fb_debug_diff virt w1 = Inr ()" by simp
  from fb_ns_swap_vmem_total [OF this, of e activate] obtain w2 where
    c: "fb_ns_swap_vmem e virt activate w1 = Inr w2" by blast
  from fb_ns_swap_vmem_grows [OF c] s1 have s2: "same_store w w2"
    by (simp add: same_store_def)
  show ?thesis
  proof (cases "ra < 0 \<or> \<not> activate")
    case True
    with m c show ?thesis by (auto simp: do_fb_activate_ns_def)
  next
    case False
    from s2 v have v2: "fb_infos w2 virt = Some v" by (simp add: same_store_def)
    from s2 have "staged_colregs w2 v = staged_colregs w v"
      by (intro staged_colregs_cong) (simp add: same_store_def)
    with staged False have
      "0 < colreg_pos (par v) \<longrightarrow>
         length (staged_colregs w2 v) = colreg_pos (par v) \<and> hw_fb_setcolreg e (info (par v)) \<noteq> None"
      by simp
    from fb_ns_apply_colreg_total [OF v2 virt this] obtain rc w3 v3 where
      p: "fb_ns_apply_colreg e virt w2 = Inr (rc, w3)" "fb_infos w3 virt = Some v3" by blast
    with m c False show ?thesis
      by (auto simp: do_fb_activate_ns_def fb_ns_apply_setpar_def fb_virt_to_info_def)
  qed
qed

subsection \<open>Ordered traces\<close>








lemma walked_no_repoint:
  "list_all P evs \<Longrightarrow> (\<And>ev. P ev \<Longrightarrow> phase_of ev \<noteq> Repoint) \<Longrightarrow> walked evs = []"
  by (rule walked_repoint_free) (auto simp: list_all_iff)

subsection \<open>One acquisition, one release\<close>

lemma get_fb_info_ns_new:
  assumes ns: "cur_fb_ns e = n" "n \<noteq> NULL" "fb_nss w n = Some ns"
    and dev: "fb_infos w d = Some hw" "node hw < length (fb ns)"
    and empty: "fb ns ! node hw = NULL"
    and alloc: "framebuffer_alloc_ret e = a" "a \<noteq> NULL" "fb_infos w a = None"
      "0 < smem_len hw \<Longrightarrow> vmalloc_ret e \<noteq> NULL" "kmalloc_fbops_ok e"
    and vmem: "vmem = (if 0 < smem_len hw then vmalloc_ret e else NULL)"
  shows "get_fb_info_ns e d w =
      Inr (PTR a,
           w\<lparr>fb_nss := (fb_nss w)(n \<mapsto> ns\<lparr>users := users ns + 1, fb := (fb ns)[node hw := a]\<rparr>),
             vmalloc_live := (if 0 < smem_len hw then insert vmem (vmalloc_live w)
                              else vmalloc_live w),
             mem := (\<lambda>x. if vmem \<le> x \<and> x < vmem + smem_len hw then 0 else mem w x),
             trace := trace w @ [MutexLock, MutexUnlock],
             fb_infos := (fb_infos w)(a \<mapsto> (fresh_shadow n d hw vmem)\<lparr>count := 1\<rparr>)\<rparr>)"
proof -
  from alloc(3) dev(1) have ad: "a \<noteq> d" by auto
  show ?thesis
    using assms ad
    by (simp add: get_fb_info_ns_def get_fb_ns_def fb_ns_info_alloc_def set_slot_def upd_fb_def
        emit_def Let_def fresh_shadow_def cong: if_cong)
qed

lemma get_fb_info_ns_existing:
  assumes ns: "cur_fb_ns e = n" "n \<noteq> NULL" "fb_nss w n = Some ns"
    and dev: "fb_infos w d = Some hw" "node hw < length (fb ns)"
    and slot: "fb ns ! node hw = a" "a \<noteq> NULL" "fb_infos w a = Some v"
  shows "get_fb_info_ns e d w =
      Inr (PTR a, w\<lparr>fb_nss := (fb_nss w)(n \<mapsto> ns\<lparr>users := users ns + 1\<rparr>),
                    trace := trace w @ [MutexLock, MutexUnlock],
                    fb_infos := (fb_infos w)(a \<mapsto> v\<lparr>count := count v + 1\<rparr>)\<rparr>)"
  using assms
  by (simp add: get_fb_info_ns_def get_fb_ns_def set_slot_def upd_fb_def emit_def Let_def)

lemma put_fb_info_ns_not_last:
  assumes "fb_infos w a = Some v" "fb_nss w (fb_ns (par v)) = Some ns" "count v \<noteq> 1"
  shows "put_fb_info_ns a w =
      Inr (w\<lparr>fb_nss := (fb_nss w)(fb_ns (par v) \<mapsto> ns\<lparr>users := users ns - 1\<rparr>),
             fb_infos := (fb_infos w)(a \<mapsto> v\<lparr>count := count v - 1\<rparr>)\<rparr>)"
  using assms
  by (simp add: put_fb_info_ns_def put_fb_ns_def upd_fb_def Let_def)

lemma put_fb_info_ns_last:
  assumes "fb_infos w a = Some v" "fb_nss w (fb_ns (par v)) = Some ns" "count v = 1"
    "node v < length (fb ns)"
  shows "put_fb_info_ns a w =
      Inr (w\<lparr>fb_nss := (fb_nss w)(fb_ns (par v) \<mapsto>
                          ns\<lparr>users := users ns - 1, fb := (fb ns)[node v := NULL]\<rparr>),
             vmalloc_live := vmalloc_live w - {vmem_buf (par v)},
             colregs := (colregs w)(colreg (par v) := None),
             fb_infos := (fb_infos w)(a := None)\<rparr>)"
  using assms
  by (simp add: put_fb_info_ns_def put_fb_ns_def upd_fb_def set_slot_def fb_ns_info_free_def Let_def)


subsection \<open>Runs on the concrete machine\<close>


lemma ex_fail_run:
  "do_fb_activate_ns ex_fail_env 200 True ex_map_world =
     Inr (- 7, ex_map_world\<lparr>trace := ex_map_trace (- 5) (- 7)\<rparr>)"
  by (simp add: step_defs ex_defs ex_map_defs)

lemma ex_fail_rets:
  "remap_rets ex_fail_env 200 (inodes (par ex_map_shadow)) ex_map_world = [- 5, - 7]"
  by (simp add: step_defs ex_defs ex_map_defs)

lemma ex_pal_world_fb:
  "fb_infos ex_pal_world 200 = Some ex_pal_shadow"
  "fb_infos ex_pal_world 100 = Some ex_hw"
  by (simp_all add: ex_pal_world_def ex_world1_def)

lemma ex_pal_shadow_virt: "fb_info_is_virt ex_pal_shadow"
  by (simp add: ex_pal_shadow_def fb_info_is_virt_def ex_shadow_def FBINFO_DEV_NS_def)

lemma ex_pal_staged: "staged_colregs ex_pal_world ex_pal_shadow = [ex_c1, ex_c2, ex_c3]"
  by (simp add: staged_colregs_def ex_pal_world_def ex_pal_shadow_def ex_shadow_def)

lemma ex_world_z_fb:
  "fb_infos ex_world_z 200 = Some ex_shadow0" "fb_infos ex_world_z 100 = Some ex_hw0"
  by (simp_all add: ex_world_z_def)

lemma ex_shadow0_virt: "fb_info_is_virt ex_shadow0"
  by (simp add: ex_shadow0_def fb_info_is_virt_def ex_shadow_def FBINFO_DEV_NS_def)

lemma ex_shadow0_sel:
  "info (par ex_shadow0) = 100" "smem_len ex_shadow0 = 0" "inodes (par ex_shadow0) = []"
  "colreg_pos (par ex_shadow0) = 0" "ns_screen_base (par ex_shadow0) = NULL"
  "ns_screen_size (par ex_shadow0) = 4"
  by (simp_all add: ex_shadow0_def ex_shadow_def)

lemma ex_diff_z: "fb_debug_diff 200 ex_world_z = Inr ()"
  by (simp add: fb_debug_diff_def ex_world_z_fb ex_shadow0_virt ex_shadow0_sel)
     (simp add: ex_hw0_def ex_hw_def)

text \<open>The concrete machine is one the code builds: the first acquisition from the
  passive namespace makes the shadow of \<open>ex_world1\<close> at address 200, and tracking
  the inodes 50 and 52 on it gives the shadow of \<open>ex_map_world\<close>.\<close>

lemma ex_shadow_made_by_alloc:
  "ex_shadow 10 2000 = (fresh_shadow 10 100 ex_hw 2000)\<lparr>count := 1\<rparr>"
  by (simp add: ex_shadow_def fresh_shadow_def ex_hw_def)

lemma ex_world0_first_acquire:
  "get_fb_info_ns ex_env 100 ex_world0 =
     Inr (PTR 200,
          ex_world0\<lparr>fb_infos := [100 \<mapsto> ex_hw, 200 \<mapsto> ex_shadow 10 2000],
                    fb_nss := (fb_nss ex_world0)
                       (10 \<mapsto> \<lparr>fb = (replicate FB_MAX NULL)[0 := 200], dev_ns = 20, users = 2\<rparr>),
                    vmalloc_live := {2000},
                    mem := (\<lambda>a. if 2000 \<le> a \<and> a < 2004 then 0 else 7),
                    trace := [MutexLock, MutexUnlock]\<rparr>)"
  by (simp add: get_fb_info_ns_def get_fb_ns_def fb_ns_info_alloc_def set_slot_def upd_fb_def
      emit_def Let_def ex_world0_def ex_env_def ex_hw_def ex_shadow_def FB_MAX_def cong: if_cong)

lemma ex_map_world_tracked:
  "track_fb_inode ex_env 200 50 ex_world1 =
     Inr (0, ex_world1\<lparr>fb_infos := (fb_infos ex_world1)
                (200 \<mapsto> set_inodes [\<lparr>inode = 50, use_count = 1\<rparr>] (ex_shadow 10 2000)),
              trace := [MutexLock, MutexUnlock]\<rparr>)"
  "track_fb_inode ex_env 200 52
     (ex_world1\<lparr>fb_infos := (fb_infos ex_world1)
                (200 \<mapsto> set_inodes [\<lparr>inode = 50, use_count = 1\<rparr>] (ex_shadow 10 2000))\<rparr>) =
     Inr (0, ex_map_world\<lparr>trace := [MutexLock, MutexUnlock]\<rparr>)"
  by (simp_all add: track_fb_inode_def find_fb_inode_def set_inodes_def upd_fb_def emit_def Let_def
      ex_defs ex_map_defs)

subsection \<open>Resolving the effective device\<close>

text \<open>
  C7. For a handle \<open>virt\<close> that addresses an object \<open>v\<close>, \<^verbatim>\<open>fb_virt_to_info_ns\<close> returns
  the hardware device \<open>info (par v)\<close> when \<open>v\<close> is a shadow and its namespace is
  the active one or the initial one, and the handle itself in every other case:
  a shadow of a passive namespace, and an object that is not a shadow at all.
  (A shadow's \<^verbatim>\<open>fb_ns\<close> must address its namespace's table \<open>ns\<close>.)
\<close>

theorem fb_virt_to_info_ns_resolves:
  assumes "fb_infos w virt = Some v"
    and "fb_info_is_virt v \<Longrightarrow> fb_nss w (fb_ns (par v)) = Some ns"
  shows "fb_virt_to_info_ns e virt w =
           Inr (if fb_info_is_virt v
                   \<and> (is_active_dev_ns e (dev_ns ns) \<or> dev_ns ns = init_dev_ns e)
                then info (par v) else virt)"
  using assms by (simp add: fb_virt_to_info_ns_def fb_virt_is_active_def fb_virt_to_info_def)

text \<open>On the concrete machine: the shadow of the active namespace resolves to the
  hardware (address 100), the shadow of the passive namespace and the hardware device
  to themselves, and the passive shadow to the hardware once its namespace is the
  initial one.\<close>

theorem fb_virt_to_info_ns_resolves_witness:
  "fb_virt_to_info_ns ex_env 400 ex_world1 = Inr 100 \<and>
   fb_virt_to_info_ns ex_env 200 ex_world1 = Inr 200 \<and>
   fb_virt_to_info_ns ex_env 100 ex_world1 = Inr 100 \<and>
   fb_virt_to_info_ns (ex_env\<lparr>init_dev_ns := 20\<rparr>) 200 ex_world1 = Inr 100"
  using
    fb_virt_to_info_ns_resolves [of ex_world1 400 "ex_shadow 11 4000"
      "\<lparr>fb = (replicate FB_MAX NULL)[0 := 400], dev_ns = 21, users = 2\<rparr>" ex_env]
    fb_virt_to_info_ns_resolves [of ex_world1 200 "ex_shadow 10 2000"
      "\<lparr>fb = (replicate FB_MAX NULL)[0 := 200], dev_ns = 20, users = 2\<rparr>" ex_env]
    fb_virt_to_info_ns_resolves [of ex_world1 100 ex_hw undefined ex_env]
    fb_virt_to_info_ns_resolves [of ex_world1 200 "ex_shadow 10 2000"
      "\<lparr>fb = (replicate FB_MAX NULL)[0 := 200], dev_ns = 20, users = 2\<rparr>"
      "ex_env\<lparr>init_dev_ns := 20\<rparr>"]
  by (simp add: ex_world1_def ex_env_def ex_shadow_is_virt ex_hw_not_virt)
     (simp add: ex_shadow_def)

subsection \<open>Fatal consistency checks\<close>

text \<open>
  C9. The lifecycle operations \<^verbatim>\<open>fb_ns_open\<close>, \<^verbatim>\<open>fb_ns_release\<close> and \<^verbatim>\<open>fb_ns_destroy\<close> of a
  shadow end in \<^verbatim>\<open>BUG()\<close> whatever their arguments, and so does \<^verbatim>\<open>untrack_fb_inode\<close>
  for an inode that is not \<open>NULL\<close> and not among the tracked ones: none of them
  returns, with an error code or otherwise.
\<close>

theorem untracked_and_lifecycle_are_fatal:
  "fb_ns_open virt user w = Inl BUG \<and>
   fb_ns_release virt user w = Inl BUG \<and>
   fb_ns_destroy virt w = Inl BUG \<and>
   (fb_infos w virt = Some v \<longrightarrow> ino \<noteq> NULL \<longrightarrow> ino \<notin> inode ` set (inodes (par v)) \<longrightarrow>
      untrack_fb_inode virt ino w = Inl BUG)"
  by (simp add: fb_ns_open_def fb_ns_release_def fb_ns_destroy_def untrack_fb_inode_def
      find_fb_inode_def emit_def find_fb_inode_from_None Let_def)

theorem untracked_and_lifecycle_are_fatal_witness:
  "fb_ns_open 200 0 ex_world1 = Inl BUG \<and> untrack_fb_inode 200 50 ex_world1 = Inl BUG"
  using untracked_and_lifecycle_are_fatal [of 200 0 ex_world1 "ex_shadow 10 2000" 50]
  by (simp add: ex_world1_def ex_shadow_def)

text \<open>
  C10. \<^verbatim>\<open>untrack_fb_inode\<close> with a \<open>NULL\<close> inode returns the world as it was: the
  mutex is not taken (the trace is unchanged), no entry and no use count changes,
  and there is no fault, although \<open>NULL\<close> is not a tracked inode.
\<close>

theorem untrack_null_inode_is_noop:
  "fb_infos w virt = Some v \<Longrightarrow> untrack_fb_inode virt NULL w = Inr w"
  by (simp add: untrack_fb_inode_def)

theorem untrack_null_inode_is_noop_witness:
  "untrack_fb_inode 200 NULL ex_world1 = Inr ex_world1"
  using untrack_null_inode_is_noop [of ex_world1 200 "ex_shadow 10 2000"]
  by (simp add: ex_world1_def)

subsection \<open>Replaying the staged palette\<close>

text \<open>
  C3. For a shadow whose staged entries lie inside its block, and a hardware driver
  that has a palette operation \<open>f\<close>, \<^verbatim>\<open>fb_ns_apply_colreg\<close> calls \<open>f\<close> on the hardware
  device once per staged entry, in the order in which they were staged, whatever
  the calls return; it returns the first negative value among the results (0 when
  there is none); and it leaves \<^verbatim>\<open>colreg_pos\<close> at 0, so that the staged sequence is
  empty afterwards whatever the outcome. Nothing else changes.
\<close>

theorem fb_ns_apply_colreg_replays_in_order:
  assumes "fb_infos w virt = Some v" and "fb_info_is_virt v"
    and "length (staged_colregs w v) = colreg_pos (par v)"
    and "hw_fb_setcolreg e (info (par v)) = Some f"
  shows "fb_ns_apply_colreg e virt w =
           Inr (first_error (replay_rets f (info (par v)) (trace w) (staged_colregs w v)),
                w\<lparr>trace := trace w @ map (colreg_call (info (par v))) (staged_colregs w v),
                  fb_infos := (fb_infos w)(virt \<mapsto> v\<lparr>par := (par v)\<lparr>colreg_pos := 0\<rparr>\<rparr>)\<rparr>)"
proof -
  let ?arr = "case colregs w (colreg (par v)) of None \<Rightarrow> [] | Some a \<Rightarrow> a"
  from assms(3) have le: "0 + colreg_pos (par v) \<le> length ?arr"
    by (simp add: staged_colregs_def)
  show ?thesis
    using assms(1,2,4)
    by (simp add: fb_ns_apply_colreg_def fb_virt_to_info_def apply_colreg_loop_spec [OF le]
        staged_colregs_def upd_fb_def)
qed

text \<open>Three staged entries, the second and the third rejected with different codes:
  all three are applied, in order, and the code of the second is returned.\<close>

theorem fb_ns_apply_colreg_replays_in_order_witness:
  "fb_ns_apply_colreg ex_pal_env 200 ex_pal_world =
     Inr (- 22,
          ex_pal_world
            \<lparr>trace := [HwSetColreg 100 7 1 2 3 4, HwSetColreg 100 8 5 6 7 8,
                       HwSetColreg 100 9 9 10 11 12],
             fb_infos := (fb_infos ex_pal_world)
                (200 \<mapsto> ex_pal_shadow\<lparr>par := (par ex_pal_shadow)\<lparr>colreg_pos := 0\<rparr>\<rparr>)\<rparr>)"
proof -
  have pos: "colreg_pos (par ex_pal_shadow) = 3" "info (par ex_pal_shadow) = 100"
    by (simp_all add: ex_pal_shadow_def ex_shadow_def)
  have tr: "trace ex_pal_world = []"
    by (simp add: ex_pal_world_def ex_world1_def)
  have op: "hw_fb_setcolreg ex_pal_env (info (par ex_pal_shadow)) =
      Some (\<lambda>tr rno r g b t. if rno = 8 then - 22 else if rno = 9 then - 5 else 0)"
    by (simp add: ex_pal_env_def)
  show ?thesis
    using fb_ns_apply_colreg_replays_in_order [OF ex_pal_world_fb(1) ex_pal_shadow_virt _ op]
    by (simp add: ex_pal_staged pos tr colreg_ret_def colreg_call_def ex_c1_def ex_c2_def ex_c3_def)
qed

subsection \<open>Devices without a buffer\<close>

text \<open>
  C8, as the specification states it, fails: the shadow of \<open>ex_world_zbad\<close> has length
  zero and neither it nor its hardware device has a buffer, yet the copy step and
  the whole transition end in \<^verbatim>\<open>BUG\<close>, in both directions, because the size the hardware
  reports is no longer the one recorded in the shadow. The consistency check comes
  before the test for a zero length.
\<close>

theorem zero_length_shadow_faults_on_changed_hardware:
  "fb_infos ex_world_zbad 200 = Some ex_shadow0 \<and> smem_len ex_shadow0 = 0 \<and>
   screen_base ex_shadow0 = NULL \<and>
   map_option screen_base (fb_infos ex_world_zbad (info (par ex_shadow0))) = Some NULL \<and>
   fb_ns_swap_vmem ex_env 200 True ex_world_zbad = Inl BUG \<and>
   fb_ns_swap_vmem ex_env 200 False ex_world_zbad = Inl BUG \<and>
   do_fb_activate_ns ex_env 200 True ex_world_zbad = Inl BUG \<and>
   do_fb_activate_ns ex_env 200 False ex_world_zbad = Inl BUG"
  by (simp add: step_defs ex_defs ex_world_zbad_def ex_world_z_def ex_shadow0_def ex_hw0_def)

text \<open>
  C8, amended. For a shadow whose length \<^verbatim>\<open>fix.smem_len\<close> is zero, or whose hardware
  buffer or backing buffer is \<open>NULL\<close>, \<^verbatim>\<open>fb_ns_swap_vmem\<close> is the consistency check and
  nothing more, on activation and on deactivation alike: it faults where the check
  faults and otherwise returns the world as it is. Whenever \<^verbatim>\<open>do_fb_activate_ns\<close>
  completes in either direction, memory is unchanged and no copy (and no wait for
  the hardware before a copy) is among the events it added; and it completes with 0
  only where the check passes. It does complete, without a fault, when the switch
  is ready (\<open>switch_ready\<close>: the check passes, and the re-pointing and the replay,
  which do not depend on the buffers, cannot fault).
\<close>

theorem no_copy_without_buffer:
  assumes "fb_infos w virt = Some v" and "fb_infos w (info (par v)) = Some hw"
    and "smem_len v = 0 \<or> screen_base hw = NULL \<or> screen_base v = NULL"
  shows "fb_ns_swap_vmem e virt activate w =
           (case fb_debug_diff virt w of Inl f \<Rightarrow> Inl f | Inr u \<Rightarrow> Inr w) \<and>
         (\<forall>r w'. do_fb_activate_ns e virt activate w = Inr (r, w') \<longrightarrow>
              mem w' = mem w
              \<and> (\<exists>evs. trace w' = trace w @ evs \<and> list_all (\<lambda>ev. \<not> is_copy ev) evs)
              \<and> (\<not> r < 0 \<longrightarrow> fb_debug_diff virt w = Inr ())) \<and>
         (switch_ready e virt activate w \<longrightarrow>
              (\<exists>r w'. do_fb_activate_ns e virt activate w = Inr (r, w')))"
proof (intro conjI)
  show "fb_ns_swap_vmem e virt activate w =
          (case fb_debug_diff virt w of Inl f \<Rightarrow> Inl f | Inr u \<Rightarrow> Inr w)"
    using assms by (rule fb_ns_swap_vmem_zero)
next
  have skip: "w2 = w1 \<and> fb_debug_diff virt w = Inr ()"
    if "fb_ns_swap_mmap e virt activate w = Inr (ra, w1)"
      and "fb_ns_swap_vmem e virt activate w1 = Inr w2" for ra w1 w2
  proof -
    from fb_ns_swap_mmap_grows [OF that(1)] have fb1: "fb_infos w1 = fb_infos w"
      by (simp add: same_store_def)
    have "fb_ns_swap_vmem e virt activate w1 =
            (case fb_debug_diff virt w1 of Inl f \<Rightarrow> Inl f | Inr u \<Rightarrow> Inr w1)"
      by (rule fb_ns_swap_vmem_zero [of w1 virt v hw]) (simp_all add: fb1 assms)
    with that(2) fb_debug_diff_cong [OF fb1, of virt] show ?thesis
      by (auto split: sum.splits)
  qed
  have "mem w' = mem w \<and> (\<exists>evs. trace w' = trace w @ evs \<and> list_all (\<lambda>ev. \<not> is_copy ev) evs)
        \<and> (\<not> r < 0 \<longrightarrow> fb_debug_diff virt w = Inr ())"
    if run: "do_fb_activate_ns e virt activate w = Inr (r, w')" for r w'
    using run
  proof (cases rule: do_fb_activate_ns_cases)
    case failed
    from fb_ns_swap_mmap_grows [OF failed(1)] failed(2) show ?thesis
      by (auto simp: grows_by_def is_copy_def is_repoint_def list_all_iff)
  next
    case (deactivated ra w1)
    from skip [OF deactivated(1,3)] have "w' = w1" "fb_debug_diff virt w = Inr ()" by simp_all
    with fb_ns_swap_mmap_grows [OF deactivated(1)] show ?thesis
      by (auto simp: grows_by_def is_copy_def is_repoint_def list_all_iff)
  next
    case (activated ra w1 w2 rc w3)
    from skip [OF activated(1,3)] have w2: "w2 = w1" and d: "fb_debug_diff virt w = Inr ()"
      by simp_all
    from fb_ns_swap_mmap_grows [OF activated(1)] obtain evs1 where
      1: "trace w1 = trace w @ evs1" "list_all is_repoint evs1" "mem w1 = mem w"
      by (auto simp: grows_by_def)
    from fb_ns_apply_colreg_grows [OF activated(6)] w2 obtain evs2 where
      2: "trace w3 = trace w1 @ evs2" "list_all is_replay evs2" "mem w3 = mem w1"
      by (auto simp: grows_by_def)
    have "mem w3 = mem w \<and> (\<exists>evs. trace w3 = trace w @ evs \<and> list_all (\<lambda>ev. \<not> is_copy ev) evs)"
      using 1 2 by (auto simp: is_copy_def is_repoint_def is_replay_def list_all_iff)
    with activated(7) d show ?thesis
      by (auto simp: emit_def is_copy_def)
  qed
  then show "\<forall>r w'. do_fb_activate_ns e virt activate w = Inr (r, w') \<longrightarrow>
      mem w' = mem w \<and> (\<exists>evs. trace w' = trace w @ evs \<and> list_all (\<lambda>ev. \<not> is_copy ev) evs)
      \<and> (\<not> r < 0 \<longrightarrow> fb_debug_diff virt w = Inr ())"
    by blast
next
  show "switch_ready e virt activate w \<longrightarrow>
      (\<exists>r w'. do_fb_activate_ns e virt activate w = Inr (r, w'))"
    by (rule impI) (rule do_fb_activate_ns_completes)
qed

text \<open>On the machine whose device has no buffer, and whose hardware still reports
  what the shadow recorded, both directions of the copy step return the world
  unchanged, and both transitions complete with 0.\<close>

theorem no_copy_without_buffer_witness:
  "fb_ns_swap_vmem ex_env 200 True ex_world_z = Inr ex_world_z \<and>
   fb_ns_swap_vmem ex_env 200 False ex_world_z = Inr ex_world_z \<and>
   do_fb_activate_ns ex_env 200 True ex_world_z = Inr (0, ex_world_z) \<and>
   do_fb_activate_ns ex_env 200 False ex_world_z = Inr (0, ex_world_z)"
proof -
  have z: "smem_len ex_shadow0 = 0 \<or> screen_base ex_hw0 = NULL \<or> screen_base ex_shadow0 = NULL"
    by (simp add: ex_shadow0_sel)
  have hw: "fb_infos ex_world_z (info (par ex_shadow0)) = Some ex_hw0"
    by (simp add: ex_shadow0_sel ex_world_z_fb)
  note t = no_copy_without_buffer [OF ex_world_z_fb(1) hw z, of ex_env True, THEN conjunct1]
  note f = no_copy_without_buffer [OF ex_world_z_fb(1) hw z, of ex_env False, THEN conjunct1]
  have m: "fb_ns_swap_mmap ex_env 200 a ex_world_z = Inr (0, ex_world_z)" for a
    by (simp add: fb_ns_swap_mmap_def ex_world_z_fb ex_shadow0_sel)
  have c: "fb_ns_apply_colreg ex_env 200 ex_world_z = Inr (0, ex_world_z)"
    by (simp add: fb_ns_apply_colreg_def ex_world_z_fb ex_shadow0_sel fb_virt_to_info_def
        ex_shadow0_virt upd_fb_def)
       (simp add: ex_world_z_def ex_shadow0_def ex_shadow_def)
  have p: "fb_ns_apply_setpar ex_env 200 ex_world_z = Inr (0, ex_world_z)"
    by (simp add: fb_ns_apply_setpar_def ex_world_z_fb fb_virt_to_info_def ex_shadow0_virt)
  have pan: "\<not> config_pan ex_env" by (simp add: ex_env_def)
  show ?thesis
    using t f by (simp add: do_fb_activate_ns_def m c p pan ex_diff_z)
qed

subsection \<open>The staged mode change\<close>

text \<open>
  C5 (what the code does at the claim's scenario). The passive namespace stages
  geometry \<open>ex_g1\<close> and then \<open>ex_g2\<close>; each call returns 0 and the second
  overwrites the first. Activation then returns 0 having copied the buffer and
  nothing else: the trace holds no mode change, the hardware's \<^verbatim>\<open>var\<close> is still
  640 by 480, and the staged geometry is still in its slot with \<^verbatim>\<open>xres\<close> 800.
\<close>

theorem staged_mode_change_is_never_applied:
  "fb_ns_set_par 200 (upd_fb 200 (\<lambda>v. v\<lparr>var := ex_g1\<rparr>) ex_world1) = Inr (0, ex_staged ex_g1) \<and>
   fb_ns_set_par 200 (upd_fb 200 (\<lambda>v. v\<lparr>var := ex_g2\<rparr>) (ex_staged ex_g1)) = Inr (0, ex_staged ex_g2) \<and>
   do_fb_activate_ns ex_env 200 True (ex_staged ex_g2) =
     Inr (0, (ex_staged ex_g2)\<lparr>mem := memcpy (mem ex_world1) 1000 2000 4,
                               trace := [MemcpyToFb 1000 2000 4]\<rparr>)"
  by (simp add: step_defs ex_defs)


text \<open>The statements behind the \<^verbatim>\<open>return\<close>, had they been reached in that state, apply
  the staged geometry to the hardware once and clear the slot (\<^verbatim>\<open>xres\<close> 0).\<close>

lemma unreached_code_would_apply_mode:
  "fb_ns_apply_setpar_unreached ex_env 200 (ex_staged ex_g2) =
     Inr (0, (ex_staged ex_g2)
        \<lparr>fb_infos := (fb_infos (ex_staged ex_g2))
           (100 \<mapsto> ex_hw\<lparr>var := ex_g2\<rparr>,
            200 \<mapsto> (ex_shadow 10 2000)\<lparr>var := ex_g2,
                       par := (par (ex_shadow 10 2000))\<lparr>ns_var := ex_g2\<lparr>xres := 0\<rparr>\<rparr>\<rparr>),
         trace := [HwSetPar 100 ex_g2]\<rparr>)"
  by (simp add: fb_ns_apply_setpar_unreached_def step_defs ex_defs)

subsection \<open>Staging a palette update\<close>

text \<open>Whenever the staged sequence is full, and so on a fresh shadow (position and
  capacity both 0), a call of \<^verbatim>\<open>fb_ns_setcolreg\<close> that returns at all returns
  \<^verbatim>\<open>-ENOMEM\<close> and leaves every object as it was, whatever \<^verbatim>\<open>krealloc\<close> answered.\<close>

lemma fb_ns_setcolreg_full:
  assumes "fb_infos w virt = Some v" and "colreg_pos (par v) = colreg_len (par v)"
    and "fb_ns_setcolreg e rno r g b t virt w = Inr (ret, w')"
  shows "ret = - ENOMEM \<and> fb_infos w' = fb_infos w"
  using assms
  by (auto simp: fb_ns_setcolreg_def krealloc_colreg_def Let_def split: if_splits sum.splits)

text \<open>
  C4 (what the code does at the claim's scenario). The first palette update on the
  fresh shadow of the passive namespace, register 3 to (255, 0, 0, 255), with a
  \<^verbatim>\<open>krealloc\<close> that succeeds and hands out the block at 3000: the call returns
  \<^verbatim>\<open>-ENOMEM\<close>, the shadow is unchanged (no entry recorded, position and capacity still
  0, \<^verbatim>\<open>colreg\<close> still \<open>NULL\<close>), and the new block is left allocated with nothing
  pointing to it.
\<close>

theorem first_palette_update_returns_ENOMEM:
  "fb_ns_setcolreg ex_env 3 255 0 0 255 200 ex_world1 =
     Inr (- ENOMEM, ex_world1\<lparr>colregs := [3000 \<mapsto> replicate 256 zero_colreg]\<rparr>)"
  by (simp add: step_defs ex_defs)

subsection \<open>Acquiring and releasing a shadow\<close>

text \<open>
  C2. Let the slot of hardware device \<open>d\<close> in the table \<open>n\<close> of the caller's
  namespace be empty, and let the allocations of the first call succeed, the new
  object getting the fresh address \<open>a\<close>. Then two calls of \<^verbatim>\<open>get_fb_info_ns\<close> both
  return \<open>a\<close>, with the reference count 1 after the first and 2 after the second;
  the first \<^verbatim>\<open>put_fb_info_ns\<close> brings the count back to 1 and leaves the shadow in
  its slot with its backing buffer allocated; the second removes it: the slot is
  \<open>NULL\<close> and \<open>a\<close> is nowhere in the table, the object is gone from the store,
  its backing buffer is freed and so is its block of staged palette entries, and
  the namespace has as many users as before. No palette entry can have been staged
  on a shadow made this way, so the last release is also stated for a shadow in
  any state: whatever backing buffer and whatever block of palette entries a shadow
  with reference count 1 holds, \<^verbatim>\<open>put_fb_info_ns\<close> empties its slot, removes the object
  from the store, and frees that buffer and that block.
\<close>

theorem acquire_twice_release_twice:
  assumes ns: "cur_fb_ns e1 = n" "cur_fb_ns e2 = n" "n \<noteq> NULL" "fb_nss w n = Some ns"
    and dev: "fb_infos w d = Some hw" "node hw < length (fb ns)"
    and empty: "fb ns ! node hw = NULL" "a \<notin> set (fb ns)"
    and alloc: "framebuffer_alloc_ret e1 = a" "a \<noteq> NULL" "fb_infos w a = None"
      "0 < smem_len hw \<Longrightarrow> vmalloc_ret e1 \<noteq> NULL" "kmalloc_fbops_ok e1"
  shows "(\<exists>w1 w2 w3 w4 v ns3 ns4.
     get_fb_info_ns e1 d w = Inr (PTR a, w1) \<and> map_option count (fb_infos w1 a) = Some 1 \<and>
     get_fb_info_ns e2 d w1 = Inr (PTR a, w2) \<and> map_option count (fb_infos w2 a) = Some 2 \<and>
     put_fb_info_ns a w2 = Inr w3 \<and> fb_infos w3 a = Some v \<and> count v = 1 \<and>
       fb_nss w3 n = Some ns3 \<and> fb ns3 ! node hw = a \<and>
       (0 < smem_len hw \<longrightarrow> vmem_buf (par v) \<in> vmalloc_live w3) \<and>
     put_fb_info_ns a w3 = Inr w4 \<and> fb_infos w4 a = None \<and>
       fb_nss w4 n = Some ns4 \<and> fb ns4 ! node hw = NULL \<and> a \<notin> set (fb ns4) \<and>
       users ns4 = users ns \<and>
       vmem_buf (par v) \<notin> vmalloc_live w4 \<and> colregs w4 (colreg (par v)) = None) \<and>
   (\<forall>x p s t. fb_infos x p = Some s \<and> count s = 1 \<and> fb_nss x (fb_ns (par s)) = Some t
        \<and> node s < length (fb t) \<longrightarrow>
      (\<exists>x' t'. put_fb_info_ns p x = Inr x' \<and> fb_infos x' p = None \<and>
          fb_nss x' (fb_ns (par s)) = Some t' \<and> fb t' ! node s = NULL \<and>
          users t' = users t - 1 \<and>
          vmem_buf (par s) \<notin> vmalloc_live x' \<and> colregs x' (colreg (par s)) = None))"
proof (rule conjI)
  show "\<forall>x p s t. fb_infos x p = Some s \<and> count s = 1 \<and> fb_nss x (fb_ns (par s)) = Some t
        \<and> node s < length (fb t) \<longrightarrow>
      (\<exists>x' t'. put_fb_info_ns p x = Inr x' \<and> fb_infos x' p = None \<and>
          fb_nss x' (fb_ns (par s)) = Some t' \<and> fb t' ! node s = NULL \<and>
          users t' = users t - 1 \<and>
          vmem_buf (par s) \<notin> vmalloc_live x' \<and> colregs x' (colreg (par s)) = None)"
  proof (intro allI impI, elim conjE)
    fix x :: world and p :: ptr and s :: fb_info and t :: fb_dev_ns
    assume a: "fb_infos x p = Some s" "count s = 1" "fb_nss x (fb_ns (par s)) = Some t"
      "node s < length (fb t)"
    show "\<exists>x' t'. put_fb_info_ns p x = Inr x' \<and> fb_infos x' p = None \<and>
          fb_nss x' (fb_ns (par s)) = Some t' \<and> fb t' ! node s = NULL \<and>
          users t' = users t - 1 \<and>
          vmem_buf (par s) \<notin> vmalloc_live x' \<and> colregs x' (colreg (par s)) = None"
      using a(4) by (simp add: put_fb_info_ns_last [OF a(1,3,2,4)])
  qed
next
  define vmem where "vmem = (if 0 < smem_len hw then vmalloc_ret e1 else NULL)"
  define sh1 where "sh1 = (fresh_shadow n d hw vmem)\<lparr>count := 1\<rparr>"
  define ns1 where "ns1 = ns\<lparr>users := users ns + 1, fb := (fb ns)[node hw := a]\<rparr>"
  define w1 where "w1 =
    w\<lparr>fb_nss := (fb_nss w)(n \<mapsto> ns1),
      vmalloc_live := (if 0 < smem_len hw then insert vmem (vmalloc_live w) else vmalloc_live w),
      mem := (\<lambda>x. if vmem \<le> x \<and> x < vmem + smem_len hw then 0 else mem w x),
      trace := trace w @ [MutexLock, MutexUnlock],
      fb_infos := (fb_infos w)(a \<mapsto> sh1)\<rparr>"
  define sh2 where "sh2 = sh1\<lparr>count := count sh1 + 1\<rparr>"
  define ns2 where "ns2 = ns1\<lparr>users := users ns1 + 1\<rparr>"
  define w2 where "w2 =
    w1\<lparr>fb_nss := (fb_nss w1)(n \<mapsto> ns2),
       trace := trace w1 @ [MutexLock, MutexUnlock],
       fb_infos := (fb_infos w1)(a \<mapsto> sh2)\<rparr>"
  define sh3 where "sh3 = sh2\<lparr>count := count sh2 - 1\<rparr>"
  define ns3 where "ns3 = ns2\<lparr>users := users ns2 - 1\<rparr>"
  define w3 where "w3 =
    w2\<lparr>fb_nss := (fb_nss w2)(fb_ns (par sh2) \<mapsto> ns3),
       fb_infos := (fb_infos w2)(a \<mapsto> sh3)\<rparr>"
  define ns4 where "ns4 = ns3\<lparr>users := users ns3 - 1, fb := (fb ns3)[node sh3 := NULL]\<rparr>"
  define w4 where "w4 =
    w3\<lparr>fb_nss := (fb_nss w3)(fb_ns (par sh3) \<mapsto> ns4),
       vmalloc_live := vmalloc_live w3 - {vmem_buf (par sh3)},
       colregs := (colregs w3)(colreg (par sh3) := None),
       fb_infos := (fb_infos w3)(a := None)\<rparr>"
  from alloc(3) dev(1) have ad: "a \<noteq> d" by auto
  have sh: "fb_ns (par sh1) = n" "node sh1 = node hw" "vmem_buf (par sh1) = vmem" "count sh1 = 1"
    "par sh2 = par sh1" "node sh2 = node sh1" "count sh2 = 2"
    "par sh3 = par sh1" "node sh3 = node sh1" "count sh3 = 1"
    by (simp_all add: sh1_def sh2_def sh3_def fresh_shadow_def)
  have tab: "fb ns1 = (fb ns)[node hw := a]" "fb ns2 = fb ns1" "fb ns3 = fb ns1"
    "fb ns4 = (fb ns)[node hw := NULL]"
    "users ns4 = users ns"
    by (simp_all add: ns1_def ns2_def ns3_def ns4_def sh)
  have g1: "get_fb_info_ns e1 d w = Inr (PTR a, w1)"
    unfolding w1_def sh1_def ns1_def
    by (rule get_fb_info_ns_new [OF ns(1,3,4) dev empty(1) alloc vmem_def])
  have f1: "fb_nss w1 n = Some ns1" "fb_infos w1 d = Some hw" "fb_infos w1 a = Some sh1"
    using ad dev(1) by (simp_all add: w1_def)
  have g2: "get_fb_info_ns e2 d w1 = Inr (PTR a, w2)"
    unfolding w2_def sh2_def ns2_def
    by (rule get_fb_info_ns_existing [OF ns(2,3) f1(1,2) _ _ alloc(2) f1(3)])
       (simp_all add: tab dev(2))
  have f2: "fb_nss w2 n = Some ns2" "fb_infos w2 a = Some sh2"
    by (simp_all add: w2_def)
  have p1: "put_fb_info_ns a w2 = Inr w3"
    unfolding w3_def sh3_def ns3_def
    by (rule put_fb_info_ns_not_last [OF f2(2)]) (simp_all add: sh f2)
  have f3: "fb_nss w3 n = Some ns3" "fb_infos w3 a = Some sh3"
    by (simp_all add: w3_def sh)
  have p2: "put_fb_info_ns a w3 = Inr w4"
    unfolding w4_def ns4_def
    by (rule put_fb_info_ns_last [OF f3(2)]) (simp_all add: sh f3 tab dev(2))
  have f4: "fb_nss w4 n = Some ns4" "fb_infos w4 a = None"
    "vmem_buf (par sh3) \<notin> vmalloc_live w4" "colregs w4 (colreg (par sh3)) = None"
    by (simp_all add: w4_def sh)
  have live3: "0 < smem_len hw \<longrightarrow> vmem_buf (par sh3) \<in> vmalloc_live w3"
    by (simp add: w3_def w2_def w1_def sh)
  have notin: "a \<notin> set (fb ns4)"
  proof -
    have "set ((fb ns)[node hw := NULL]) \<subseteq> insert NULL (set (fb ns))"
      by (rule set_update_subset_insert)
    then show ?thesis using empty(2) alloc(2) by (auto simp: tab)
  qed
  have slots: "fb ns3 ! node hw = a" "fb ns4 ! node hw = NULL"
    using dev(2) by (simp_all add: tab)
  show "\<exists>w1 w2 w3 w4 v ns3 ns4.
     get_fb_info_ns e1 d w = Inr (PTR a, w1) \<and> map_option count (fb_infos w1 a) = Some 1 \<and>
     get_fb_info_ns e2 d w1 = Inr (PTR a, w2) \<and> map_option count (fb_infos w2 a) = Some 2 \<and>
     put_fb_info_ns a w2 = Inr w3 \<and> fb_infos w3 a = Some v \<and> count v = 1 \<and>
       fb_nss w3 n = Some ns3 \<and> fb ns3 ! node hw = a \<and>
       (0 < smem_len hw \<longrightarrow> vmem_buf (par v) \<in> vmalloc_live w3) \<and>
     put_fb_info_ns a w3 = Inr w4 \<and> fb_infos w4 a = None \<and>
       fb_nss w4 n = Some ns4 \<and> fb ns4 ! node hw = NULL \<and> a \<notin> set (fb ns4) \<and>
       users ns4 = users ns \<and>
       vmem_buf (par v) \<notin> vmalloc_live w4 \<and> colregs w4 (colreg (par v)) = None"
    apply (rule exI [of _ w1], rule exI [of _ w2], rule exI [of _ w3], rule exI [of _ w4])
    apply (rule exI [of _ sh3], rule exI [of _ ns3], rule exI [of _ ns4])
    using g1 g2 p1 p2 f1 f2 f3 f4 live3 notin slots sh tab
    apply simp
    done
qed


text \<open>On the concrete machine, from the world without shadows: the shadow is made at
  200 with its buffer at 2000, and is gone after the second release. And the release
  of the shadow of \<open>ex_pal_world\<close>, which holds three staged palette entries in the
  block at 3000, frees that block with the buffer at 2000.\<close>

theorem acquire_twice_release_twice_witness:
  "(\<exists>w1 w2 w3 w4 v ns3 ns4.
     get_fb_info_ns ex_env 100 ex_world0 = Inr (PTR 200, w1) \<and>
       map_option count (fb_infos w1 200) = Some 1 \<and>
     get_fb_info_ns ex_env 100 w1 = Inr (PTR 200, w2) \<and>
       map_option count (fb_infos w2 200) = Some 2 \<and>
     put_fb_info_ns 200 w2 = Inr w3 \<and> fb_infos w3 200 = Some v \<and> count v = 1 \<and>
       fb_nss w3 10 = Some ns3 \<and> fb ns3 ! 0 = 200 \<and> vmem_buf (par v) \<in> vmalloc_live w3 \<and>
     put_fb_info_ns 200 w3 = Inr w4 \<and> fb_infos w4 200 = None \<and>
       fb_nss w4 10 = Some ns4 \<and> fb ns4 ! 0 = NULL \<and> 200 \<notin> set (fb ns4) \<and> users ns4 = 1 \<and>
       vmem_buf (par v) \<notin> vmalloc_live w4 \<and> colregs w4 (colreg (par v)) = None) \<and>
   colregs ex_pal_world 3000 \<noteq> None \<and> 2000 \<in> vmalloc_live ex_pal_world \<and>
   (\<exists>x' t'. put_fb_info_ns 200 ex_pal_world = Inr x' \<and> fb_infos x' 200 = None \<and>
       fb_nss x' 10 = Some t' \<and> fb t' ! 0 = NULL \<and> users t' = 1 \<and>
       2000 \<notin> vmalloc_live x' \<and> colregs x' 3000 = None)"
proof -
  note chain = acquire_twice_release_twice [of ex_env 10 ex_env ex_world0
      "\<lparr>fb = replicate FB_MAX NULL, dev_ns = 20, users = 1\<rparr>" 100 ex_hw 200, THEN conjunct1]
  note last = acquire_twice_release_twice [of ex_env 10 ex_env ex_world0
      "\<lparr>fb = replicate FB_MAX NULL, dev_ns = 20, users = 1\<rparr>" 100 ex_hw 200, THEN conjunct2,
      THEN spec, THEN spec, THEN spec, THEN spec,
      of ex_pal_world 200 ex_pal_shadow
        "\<lparr>fb = (replicate FB_MAX NULL)[0 := 200], dev_ns = 20, users = 2\<rparr>"]
  have pal: "colregs ex_pal_world 3000 \<noteq> None" "2000 \<in> vmalloc_live ex_pal_world"
    by (simp_all add: ex_pal_world_def ex_world1_def)
  have sel: "fb_ns (par ex_pal_shadow) = 10" "node ex_pal_shadow = 0" "count ex_pal_shadow = 1"
    "vmem_buf (par ex_pal_shadow) = 2000" "colreg (par ex_pal_shadow) = 3000"
    by (simp_all add: ex_pal_shadow_def ex_shadow_def)
  have tab: "fb_nss ex_pal_world 10 =
      Some \<lparr>fb = (replicate FB_MAX NULL)[0 := 200], dev_ns = 20, users = 2\<rparr>"
    by (simp add: ex_pal_world_def ex_world1_def)
  have "\<exists>x' t'. put_fb_info_ns 200 ex_pal_world = Inr x' \<and> fb_infos x' 200 = None \<and>
       fb_nss x' 10 = Some t' \<and> fb t' ! 0 = NULL \<and> users t' = 1 \<and>
       2000 \<notin> vmalloc_live x' \<and> colregs x' 3000 = None"
    using last
    by (simp add: ex_env_def ex_world0_def ex_hw_def FB_MAX_def ex_pal_world_fb sel tab)
  moreover have "\<exists>w1 w2 w3 w4 v ns3 ns4.
     get_fb_info_ns ex_env 100 ex_world0 = Inr (PTR 200, w1) \<and>
       map_option count (fb_infos w1 200) = Some 1 \<and>
     get_fb_info_ns ex_env 100 w1 = Inr (PTR 200, w2) \<and>
       map_option count (fb_infos w2 200) = Some 2 \<and>
     put_fb_info_ns 200 w2 = Inr w3 \<and> fb_infos w3 200 = Some v \<and> count v = 1 \<and>
       fb_nss w3 10 = Some ns3 \<and> fb ns3 ! 0 = 200 \<and> vmem_buf (par v) \<in> vmalloc_live w3 \<and>
     put_fb_info_ns 200 w3 = Inr w4 \<and> fb_infos w4 200 = None \<and>
       fb_nss w4 10 = Some ns4 \<and> fb ns4 ! 0 = NULL \<and> 200 \<notin> set (fb ns4) \<and> users ns4 = 1 \<and>
       vmem_buf (par v) \<notin> vmalloc_live w4 \<and> colregs w4 (colreg (par v)) = None"
    using chain
    by (simp add: ex_env_def ex_world0_def ex_hw_def FB_MAX_def)
  ultimately show ?thesis using pal by simp
qed


subsection \<open>The order of the steps of an activation\<close>





subsection \<open>A re-point that fails\<close>

text \<open>
  C6, as the specification states it, fails: with the first tracked inode failing
  with -5 and the second with -7, the activation does attempt both, but it returns
  -7, the last failure and not the first, and performs no copy although the device
  has a buffer of four bytes.
\<close>

theorem repoint_failure_skips_copy_and_reports_last:
  "do_fb_activate_ns ex_fail_env 200 True ex_map_world =
     Inr (- 7, ex_map_world\<lparr>trace := ex_map_trace (- 5) (- 7)\<rparr>)
   \<and> remap_rets ex_fail_env 200 (inodes (par ex_map_shadow)) ex_map_world = [- 5, - 7]
   \<and> first_error [- 5, - 7] = - 5"
  by (simp add: ex_fail_run ex_fail_rets)


text \<open>
  C6, amended. Whenever a switch of one shadow by \<^verbatim>\<open>do_fb_activate_ns\<close> completes, in
  either direction, the mappings of all tracked inodes were walked, one after the
  other in the order of the array, whatever each attempt returned. The switch
  returns a negative value exactly when some attempt did; the value is then the
  result of one of the failed attempts, nothing but re-pointing was done, and
  memory is unchanged: the copy and the replay are skipped.
\<close>

theorem repoint_failure_ends_switch:
  assumes run: "do_fb_activate_ns e virt a w = Inr (r, w')" and v: "fb_infos w virt = Some v"
  shows "\<exists>evs. trace w' = trace w @ evs \<and>
           walked evs = map (\<lambda>x. i_mapping e (inode x)) (inodes (par v)) \<and>
           length (remap_rets e virt (inodes (par v)) w) = length (inodes (par v)) \<and>
           (r < 0 \<longleftrightarrow> (\<exists>x \<in> set (remap_rets e virt (inodes (par v)) w). x < 0)) \<and>
           (r < 0 \<longrightarrow> r \<in> set (remap_rets e virt (inodes (par v)) w)
                    \<and> list_all is_repoint evs \<and> mem w' = mem w)"
proof -
  let ?xs = "inodes (par v)"
  let ?rets = "remap_rets e virt ?xs w"
  have first: "\<exists>evs1. w1 = w\<lparr>trace := trace w @ evs1\<rparr> \<and> list_all is_repoint evs1 \<and>
          walked evs1 = map (\<lambda>x. i_mapping e (inode x)) ?xs \<and>
          length ?rets = length ?xs \<and> ra \<le> 0 \<and>
          (ra < 0 \<longleftrightarrow> (\<exists>x \<in> set ?rets. x < 0)) \<and> (ra < 0 \<longrightarrow> ra \<in> set ?rets)"
    if "fb_ns_swap_mmap e virt a w = Inr (ra, w1)" for ra w1
  proof -
    from that v have loop: "swap_mmap_loop e virt ?xs 0 w = Inr (ra, w1)"
      by (simp add: fb_ns_swap_mmap_def)
    from swap_mmap_loop_ext [OF loop] swap_mmap_loop_rets [OF loop] show ?thesis
      by auto
  qed
  from run show ?thesis
  proof (cases rule: do_fb_activate_ns_cases)
    case failed
    from first [OF failed(1)] obtain evs1 where
      "w' = w\<lparr>trace := trace w @ evs1\<rparr>" "list_all is_repoint evs1"
      "walked evs1 = map (\<lambda>x. i_mapping e (inode x)) ?xs"
      "length ?rets = length ?xs" "r < 0 \<longleftrightarrow> (\<exists>x \<in> set ?rets. x < 0)" "r < 0 \<longrightarrow> r \<in> set ?rets"
      by blast
    then show ?thesis by (intro exI [of _ evs1]) simp
  next
    case (deactivated ra w1)
    from first [OF deactivated(1)] deactivated(2) obtain evs1 where
      1: "w1 = w\<lparr>trace := trace w @ evs1\<rparr>"
        "walked evs1 = map (\<lambda>x. i_mapping e (inode x)) ?xs"
        "length ?rets = length ?xs" "\<not> (\<exists>x \<in> set ?rets. x < 0)"
      by blast
    from fb_ns_swap_vmem_grows [OF deactivated(3)] obtain evs2 where
      2: "trace w' = trace w1 @ evs2" "list_all is_copy evs2"
      by (auto simp: grows_by_def)
    from 2(2) have "walked evs2 = []"
      by (rule walked_no_repoint) (simp add: is_copy_def)
    with 1 2 deactivated(5) show ?thesis
      by (intro exI [of _ "evs1 @ evs2"]) (simp add: walked_append)
  next
    case (activated ra w1 w2 rc w3)
    from first [OF activated(1)] activated(2) obtain evs1 where
      1: "w1 = w\<lparr>trace := trace w @ evs1\<rparr>"
        "walked evs1 = map (\<lambda>x. i_mapping e (inode x)) ?xs"
        "length ?rets = length ?xs" "\<not> (\<exists>x \<in> set ?rets. x < 0)"
      by blast
    from fb_ns_swap_vmem_grows [OF activated(3)] obtain evs2 where
      2: "trace w2 = trace w1 @ evs2" "list_all is_copy evs2"
      by (auto simp: grows_by_def)
    from fb_ns_apply_colreg_grows [OF activated(6)] obtain evs3 where
      3: "trace w3 = trace w2 @ evs3" "list_all is_replay evs3"
      by (auto simp: grows_by_def)
    from activated(7) obtain evs4 where
      4: "trace w' = trace w3 @ evs4" "list_all (\<lambda>ev. phase_of ev = Pan) evs4"
    proof
      assume "w' = w3"
      then show ?thesis by (intro that [of "[]"]) simp_all
    next
      assume "\<exists>p. w' = emit (PanDisplay p) w3"
      then obtain p where "w' = emit (PanDisplay p) w3" ..
      then show ?thesis by (intro that [of "[PanDisplay p]"]) (simp_all add: emit_def)
    qed
    have nw: "walked evs2 = []" "walked evs3 = []" "walked evs4 = []"
      by (rule walked_no_repoint [OF 2(2)], simp add: is_copy_def,
          rule walked_no_repoint [OF 3(2)], simp add: is_replay_def,
          rule walked_no_repoint [OF 4(2)], simp)
    with 1 2 3 4 activated(5) show ?thesis
      by (intro exI [of _ "evs1 @ evs2 @ evs3 @ evs4"]) (simp add: walked_append)
  qed
qed

theorem repoint_failure_ends_switch_witness:
  "do_fb_activate_ns ex_fail_env 200 True ex_map_world =
     Inr (- 7, ex_map_world\<lparr>trace := ex_map_trace (- 5) (- 7)\<rparr>)
   \<and> walked (ex_map_trace (- 5) (- 7)) = [51, 53]
   \<and> list_all is_repoint (ex_map_trace (- 5) (- 7))"
proof -
  have v: "fb_infos ex_map_world 200 = Some ex_map_shadow"
    by (simp add: ex_map_world_def)
  have t: "trace ex_map_world = []"
    by (simp add: ex_map_world_def ex_world1_def)
  have xs: "map (\<lambda>x. i_mapping ex_fail_env (inode x)) (inodes (par ex_map_shadow)) = [51, 53]"
    by (simp add: ex_map_shadow_def ex_fail_env_def ex_map_env_def ex_env_def ex_shadow_def)
  from repoint_failure_ends_switch [OF ex_fail_run v] t xs
  show ?thesis by (simp add: ex_fail_run)
qed

end
